theory Spec2Isabelle
  imports Complex_Main
begin

section \<open>Array values\<close>

text \<open>
  The reward terms of \<^verbatim>\<open>rewards_test_k.py\<close> (outputs clipped to [0,1]) and
  \<^verbatim>\<open>rewards_test_w.py\<close> (outputs clipped to [-1000,1000]) compute on jax arrays of
  floating-point numbers. An array element is modelled as an exact real number or one of
  the three special values a float can hold. The special values are kept because the source
  never raises on them: a division by zero yields an infinity or NaN, and every later
  operation passes them on by the IEEE rules written out below. The model has one zero;
  a zero divisor is read as +0, which is the zero that \<^verbatim>\<open>dt + EPS\<close> and
  \<^verbatim>\<open>tracking_sigma + EPS\<close> produce when they cancel.

  Sums, products and quotients of real numbers are exact: their rounding and their overflow
  in float32 are not modelled. A theorem below that names a value takes the numbers of a
  formula as the real numbers they denote; a theorem that excludes NaN does so only for
  terms in which an overflow to infinity cannot produce NaN either (sums of squares and of
  absolute values, and quotients by a nonzero number). The exponential has the range of
  float32, the default type of jax arrays: it is 0 for an argument of at most -104 and
  infinite for an argument of at least 89.
\<close>

datatype fval = Fin real | PInf | NInf | NaN

fun is_fin :: "fval \<Rightarrow> bool" where
  "is_fin (Fin a) = True"
| "is_fin PInf = False"
| "is_fin NInf = False"
| "is_fin NaN = False"

fun fneg :: "fval \<Rightarrow> fval" where
  "fneg (Fin a) = Fin (- a)"
| "fneg PInf = NInf"
| "fneg NInf = PInf"
| "fneg NaN = NaN"

fun fadd :: "fval \<Rightarrow> fval \<Rightarrow> fval" where
  "fadd (Fin a) (Fin b) = Fin (a + b)"
| "fadd NaN y = NaN"
| "fadd x NaN = NaN"
| "fadd PInf NInf = NaN"
| "fadd NInf PInf = NaN"
| "fadd PInf y = PInf"
| "fadd x PInf = PInf"
| "fadd NInf y = NInf"
| "fadd x NInf = NInf"

definition fsub :: "fval \<Rightarrow> fval \<Rightarrow> fval" where
  "fsub x y = fadd x (fneg y)"

text \<open>The sign of an infinity times a finite factor; zero times infinity is NaN.\<close>

definition inf_times :: "bool \<Rightarrow> real \<Rightarrow> fval" where
  "inf_times positive a =
     (if a = 0 then NaN else if (0 < a) = positive then PInf else NInf)"

fun fmul :: "fval \<Rightarrow> fval \<Rightarrow> fval" where
  "fmul (Fin a) (Fin b) = Fin (a * b)"
| "fmul NaN y = NaN"
| "fmul x NaN = NaN"
| "fmul (Fin a) PInf = inf_times True a"
| "fmul (Fin a) NInf = inf_times False a"
| "fmul PInf (Fin b) = inf_times True b"
| "fmul NInf (Fin b) = inf_times False b"
| "fmul PInf PInf = PInf"
| "fmul PInf NInf = NInf"
| "fmul NInf PInf = NInf"
| "fmul NInf NInf = PInf"

fun fdiv :: "fval \<Rightarrow> fval \<Rightarrow> fval" where
  "fdiv (Fin a) (Fin b) =
     (if b \<noteq> 0 then Fin (a / b)
      else if 0 < a then PInf else if a < 0 then NInf else NaN)"
| "fdiv NaN y = NaN"
| "fdiv x NaN = NaN"
| "fdiv (Fin a) PInf = Fin 0"
| "fdiv (Fin a) NInf = Fin 0"
| "fdiv PInf (Fin b) = (if 0 \<le> b then PInf else NInf)"
| "fdiv NInf (Fin b) = (if 0 \<le> b then NInf else PInf)"
| "fdiv PInf PInf = NaN"
| "fdiv PInf NInf = NaN"
| "fdiv NInf PInf = NaN"
| "fdiv NInf NInf = NaN"

text \<open>\<^verbatim>\<open>jp.square\<close>, \<^verbatim>\<open>jp.abs\<close>, the square root of \<^verbatim>\<open>jp.linalg.norm\<close> and \<^verbatim>\<open>jp.exp\<close>.\<close>

definition fsquare :: "fval \<Rightarrow> fval" where
  "fsquare x = fmul x x"

fun fabs :: "fval \<Rightarrow> fval" where
  "fabs (Fin a) = Fin \<bar>a\<bar>"
| "fabs PInf = PInf"
| "fabs NInf = PInf"
| "fabs NaN = NaN"

text \<open>
  In float32 the smallest positive number is \<open>2 ^ -149\<close> and the largest is below
  \<open>2 ^ 128\<close>: \<open>exp a\<close> is below half the former for \<open>a \<le> -104\<close> and above the latter for
  \<open>a \<ge> 89\<close>.
\<close>

fun fexp :: "fval \<Rightarrow> fval" where
  "fexp (Fin a) = (if a \<le> - 104 then Fin 0 else if 89 \<le> a then PInf else Fin (exp a))"
| "fexp PInf = PInf"
| "fexp NInf = Fin 0"
| "fexp NaN = NaN"

fun fsqrt :: "fval \<Rightarrow> fval" where
  "fsqrt (Fin a) = (if 0 \<le> a then Fin (sqrt a) else NaN)"
| "fsqrt PInf = PInf"
| "fsqrt NInf = NaN"
| "fsqrt NaN = NaN"

text \<open>Comparisons: every comparison with NaN is false.\<close>

fun flt :: "fval \<Rightarrow> fval \<Rightarrow> bool" where
  "flt (Fin a) (Fin b) = (a < b)"
| "flt NaN y = False"
| "flt x NaN = False"
| "flt x NInf = False"
| "flt PInf y = False"
| "flt NInf y = True"
| "flt x PInf = True"

definition fgt :: "fval \<Rightarrow> fval \<Rightarrow> bool" where
  "fgt x y = flt y x"

fun feq :: "fval \<Rightarrow> fval \<Rightarrow> bool" where
  "feq NaN y = False"
| "feq x NaN = False"
| "feq x y = (x = y)"

text \<open>A boolean read as a number is 1 or 0.\<close>

definition of_mask :: "bool \<Rightarrow> fval" where
  "of_mask b = Fin (if b then 1 else 0)"

text \<open>
  A float multiplied by a boolean, \<^verbatim>\<open>x * (norm > 0.05)\<close>: the product is \<open>x\<close> where the
  boolean is true and 0 where it is false, also for an infinite or NaN \<open>x\<close>.
\<close>

definition fgate :: "fval \<Rightarrow> bool \<Rightarrow> fval" where
  "fgate x b = (if b then x else Fin 0)"

text \<open>
  \<^verbatim>\<open>jp.clip(x, lo, hi)\<close> is \<^verbatim>\<open>minimum(maximum(x, lo), hi)\<close> with constant finite bounds;
  both \<^verbatim>\<open>maximum\<close> and \<^verbatim>\<open>minimum\<close> return NaN when an argument is NaN.
\<close>

fun fclip :: "real \<Rightarrow> real \<Rightarrow> fval \<Rightarrow> fval" where
  "fclip lo hi (Fin a) = Fin (min (max a lo) hi)"
| "fclip lo hi PInf = Fin hi"
| "fclip lo hi NInf = Fin (min lo hi)"
| "fclip lo hi NaN = NaN"

text \<open>\<^verbatim>\<open>jp.sum\<close> over a one-dimensional array.\<close>

fun fsum :: "fval list \<Rightarrow> fval" where
  "fsum [] = Fin 0"
| "fsum (x # xs) = fadd x (fsum xs)"

section \<open>Arrays and the errors jax raises on them\<close>

text \<open>
  A one-dimensional array is a list. Two things can go wrong before any number is
  computed: an elementwise operation on two arrays whose shapes do not broadcast raises
  \<^verbatim>\<open>TypeError\<close>, and indexing an empty array raises \<^verbatim>\<open>IndexError\<close>. A constant index
  past the end of a non-empty array does not raise: jax clamps it to the last element.
  Nothing else in the two modules raises.
\<close>

datatype error = TypeError | IndexError

text \<open>Elementwise operation on shapes \<open>(n,)\<close> and \<open>(m,)\<close>: equal lengths, or one of them 1.\<close>

definition broadcast2 :: "('a \<Rightarrow> 'b \<Rightarrow> 'c) \<Rightarrow> 'a list \<Rightarrow> 'b list \<Rightarrow> error + 'c list" where
  "broadcast2 f xs ys =
     (if length xs = length ys then Inr (map2 f xs ys)
      else if length xs = 1 then Inr (map (f (hd xs)) ys)
      else if length ys = 1 then Inr (map (\<lambda>x. f x (hd ys)) xs)
      else Inl TypeError)"

definition vsub :: "fval list \<Rightarrow> fval list \<Rightarrow> error + fval list" where
  "vsub = broadcast2 fsub"

definition vmul :: "fval list \<Rightarrow> fval list \<Rightarrow> error + fval list" where
  "vmul = broadcast2 fmul"

text \<open>\<^verbatim>\<open>a[0]\<close> and \<^verbatim>\<open>a[i]\<close> for a constant \<open>i\<close>.\<close>

definition row0 :: "'a list \<Rightarrow> error + 'a" where
  "row0 xs = (case xs of [] \<Rightarrow> Inl IndexError | x # _ \<Rightarrow> Inr x)"

definition at_index :: "'a list \<Rightarrow> nat \<Rightarrow> error + 'a" where
  "at_index xs i = (if xs = [] then Inl IndexError else Inr (xs ! min i (length xs - 1)))"

text \<open>\<^verbatim>\<open>a[1::3]\<close> is every third element of \<^verbatim>\<open>a[1:]\<close>.\<close>

fun every_third :: "'a list \<Rightarrow> 'a list" where
  "every_third [] = []"
| "every_third (x # xs) = x # every_third (drop 2 xs)"

section \<open>The brax types and \<^verbatim>\<open>brax.math\<close> functions the terms use\<close>

text \<open>
  brax is a library outside the repository. \<^verbatim>\<open>Motion\<close> holds one linear and one angular
  velocity per body (shape \<open>(n, 3)\<close>), \<^verbatim>\<open>Transform\<close> one position and one quaternion per
  body (shapes \<open>(n, 3)\<close> and \<open>(n, 4)\<close>); the rows are modelled as triples and quadruples, so
  a row of the wrong width is excluded by the type. The three functions of \<^verbatim>\<open>brax.math\<close>
  are written after the library's source.
\<close>

type_synonym vec3 = "fval \<times> fval \<times> fval"
type_synonym quat = "fval \<times> fval \<times> fval \<times> fval"

record Motion =
  vel :: "vec3 list"
  ang :: "vec3 list"

record Transform =
  pos :: "vec3 list"
  rot :: "quat list"

definition list3 :: "vec3 \<Rightarrow> fval list" where
  "list3 v = (case v of (a, b, c) \<Rightarrow> [a, b, c])"

definition dot3 :: "vec3 \<Rightarrow> vec3 \<Rightarrow> fval" where
  "dot3 u v = fsum (map2 fmul (list3 u) (list3 v))"

definition cross3 :: "vec3 \<Rightarrow> vec3 \<Rightarrow> vec3" where
  "cross3 a b =
     (case (a, b) of ((a1, a2, a3), (b1, b2, b3)) \<Rightarrow>
        (fsub (fmul a2 b3) (fmul a3 b2),
         fsub (fmul a3 b1) (fmul a1 b3),
         fsub (fmul a1 b2) (fmul a2 b1)))"

definition scale3 :: "fval \<Rightarrow> vec3 \<Rightarrow> vec3" where
  "scale3 c v = (case v of (v1, v2, v3) \<Rightarrow> (fmul c v1, fmul c v2, fmul c v3))"

definition add3 :: "vec3 \<Rightarrow> vec3 \<Rightarrow> vec3" where
  "add3 a b = (case (a, b) of ((a1, a2, a3), (b1, b2, b3)) \<Rightarrow> (fadd a1 b1, fadd a2 b2, fadd a3 b3))"

text \<open>
  \<^verbatim>\<open>
  def rotate(vec, quat):
    s, u = quat[0], quat[1:]
    r = 2 * (jp.dot(u, vec) * u) + (s * s - jp.dot(u, u)) * vec
    r = r + 2 * s * jp.cross(u, vec)
    return r

  def quat_inv(q):
    return q * jp.array([1, -1, -1, -1])
  \<close>
\<close>

definition rotate_brax :: "vec3 \<Rightarrow> quat \<Rightarrow> vec3" where
  "rotate_brax vec q =
     (case q of (s, u1, u2, u3) \<Rightarrow>
        let u = (u1, u2, u3);
            r = add3 (scale3 (Fin 2) (scale3 (dot3 u vec) u))
                     (scale3 (fsub (fmul s s) (dot3 u u)) vec)
        in add3 r (scale3 (fmul (Fin 2) s) (cross3 u vec)))"

definition quat_inv :: "quat \<Rightarrow> quat" where
  "quat_inv q =
     (case q of (q0, q1, q2, q3) \<Rightarrow>
        (fmul q0 (Fin 1), fmul q1 (Fin (- 1)), fmul q2 (Fin (- 1)), fmul q3 (Fin (- 1))))"

text \<open>
  \<^verbatim>\<open>
  def safe_norm(x):
    is_zero = jp.allclose(x, 0.0)
    x = jp.where(is_zero, jp.ones_like(x), x)
    n = jp.linalg.norm(x)
    n = jp.where(is_zero, 0.0, n)
    return n

  def normalize(x):
    norm = safe_norm(x)
    n = x / (norm + 1e-6 * (norm == 0.0))
    return n, norm
  \<close>
  \<^verbatim>\<open>allclose(x, 0.0)\<close> holds when every element is finite and at most \<open>1e-8\<close> in
  absolute value.
\<close>

definition allclose0 :: "fval list \<Rightarrow> bool" where
  "allclose0 xs = list_all (\<lambda>x. case x of Fin a \<Rightarrow> \<bar>a\<bar> \<le> 1 / 100000000 | _ \<Rightarrow> False) xs"

definition safe_norm :: "fval list \<Rightarrow> fval" where
  "safe_norm xs = (if allclose0 xs then Fin 0 else fsqrt (fsum (map fsquare xs)))"

definition normalize_brax :: "fval list \<Rightarrow> fval list \<times> fval" where
  "normalize_brax xs =
     (let norm = safe_norm xs;
          n = map (\<lambda>x. fdiv x (fadd norm (fgate (Fin (1 / 1000000)) (feq norm (Fin 0))))) xs
      in (n, norm))"

text \<open>
  A contact pair of the simulator: the two geometry ids and the signed distance. The
  library stores the contacts as parallel arrays of one length (\<^verbatim>\<open>contact.geom1\<close>,
  \<^verbatim>\<open>contact.geom2\<close>, \<^verbatim>\<open>contact.dist\<close>); the model keeps one record per contact.
\<close>

record Contact =
  geom1 :: int
  geom2 :: int
  cdist :: fval

record State =
  site_xpos :: "vec3 list"
  xpos :: "vec3 list"
  body_xd :: Motion
  contact :: "Contact list"

section \<open>Expressions the two modules share\<close>

definition EPS :: real where
  "EPS = 1 / 1000000"

text \<open>
  The tracking errors are the same lines in both modules:
  \<^verbatim>\<open>
  world_z_in_body_frame = math.rotate(world_z, math.quat_inv(x.rot[0]))
  error = jp.sum(jp.square(world_z_in_body_frame - desired_world_z_in_body_frame))

  local_vel = math.rotate(xd.vel[0], math.quat_inv(x.rot[0]))
  lin_vel_error = jp.sum(jp.square(commands[:2] - local_vel[:2]))

  base_ang_vel = math.rotate(xd.ang[0], math.quat_inv(x.rot[0]))
  ang_vel_error = jp.square(commands[2] - base_ang_vel[2])
  \<close>
\<close>

definition world_z :: vec3 where
  "world_z = (Fin 0, Fin 0, Fin 1)"

definition orientation_error :: "fval list \<Rightarrow> Transform \<Rightarrow> error + fval" where
  "orientation_error desired_world_z_in_body_frame x =
     (case row0 (rot x) of Inl e \<Rightarrow> Inl e
      | Inr q \<Rightarrow>
         (case vsub (list3 (rotate_brax world_z (quat_inv q))) desired_world_z_in_body_frame of
            Inl e \<Rightarrow> Inl e
          | Inr d \<Rightarrow> Inr (fsum (map fsquare d))))"

definition lin_vel_error :: "fval list \<Rightarrow> Transform \<Rightarrow> Motion \<Rightarrow> error + fval" where
  "lin_vel_error commands x xd =
     (case row0 (vel xd) of Inl e \<Rightarrow> Inl e
      | Inr v \<Rightarrow>
         (case row0 (rot x) of Inl e \<Rightarrow> Inl e
          | Inr q \<Rightarrow>
             (case vsub (take 2 commands) (take 2 (list3 (rotate_brax v (quat_inv q)))) of
                Inl e \<Rightarrow> Inl e
              | Inr d \<Rightarrow> Inr (fsum (map fsquare d)))))"

definition ang_vel_error :: "fval list \<Rightarrow> Transform \<Rightarrow> Motion \<Rightarrow> error + fval" where
  "ang_vel_error commands x xd =
     (case row0 (ang xd) of Inl e \<Rightarrow> Inl e
      | Inr w \<Rightarrow>
         (case row0 (rot x) of Inl e \<Rightarrow> Inl e
          | Inr q \<Rightarrow>
             (case at_index commands 2 of Inl e \<Rightarrow> Inl e
              | Inr c \<Rightarrow>
                 (case rotate_brax w (quat_inv q) of (w1, w2, w3) \<Rightarrow>
                    Inr (fsquare (fsub c w3))))))"

text \<open>\<^verbatim>\<open>rot_up = math.rotate(up, x.rot[0])\<close>, then \<^verbatim>\<open>jp.sum(jp.square(rot_up[:2]))\<close>.\<close>

definition tilt :: "Transform \<Rightarrow> error + fval" where
  "tilt x =
     (case row0 (rot x) of Inl e \<Rightarrow> Inl e
      | Inr q \<Rightarrow> Inr (fsum (map fsquare (take 2 (list3 (rotate_brax world_z q))))))"

text \<open>
  The loop of \<^verbatim>\<open>reward_geom_collision\<close>, the same in both modules:
  \<^verbatim>\<open>
  contact = jp.array(0.0)
  for id in geom_ids:
      contact += jp.sum(((contact.geom1 == id) | (contact.geom2 == id)) * (contact.dist < 0.0))
  \<close>
  The product of the two boolean arrays is their conjunction, and its sum counts the
  contacts that touch \<open>id\<close> with a negative distance.
\<close>

definition touching :: "int \<Rightarrow> Contact \<Rightarrow> bool" where
  "touching gid c = ((geom1 c = gid \<or> geom2 c = gid) \<and> flt (cdist c) (Fin 0))"

fun collision_loop :: "Contact list \<Rightarrow> int list \<Rightarrow> fval \<Rightarrow> fval" where
  "collision_loop cs [] acc = acc"
| "collision_loop cs (gid # geom_ids) acc =
     collision_loop cs geom_ids (fadd acc (fsum (map (\<lambda>c. of_mask (touching gid c)) cs)))"

text \<open>
  \<^verbatim>\<open>reward_foot_slip\<close> obtains the foot velocities from the simulator state through brax
  alone (array gathers, \<^verbatim>\<open>Transform.create\<close>, \<^verbatim>\<open>vmap().do\<close>, \<^verbatim>\<open>take\<close>); that part is the
  parameter \<open>foot_vel\<close> of the term. The term's own computation is
  \<^verbatim>\<open>jp.sum(jp.square(foot_vel[:, :2]) * contact_filt.reshape((-1, 1)))\<close>.
\<close>

definition slip_row :: "vec3 \<Rightarrow> fval \<Rightarrow> fval list" where
  "slip_row v c = (case v of (v1, v2, v3) \<Rightarrow> [fmul (fsquare v1) c, fmul (fsquare v2) c])"

definition slip_penalty :: "vec3 list \<Rightarrow> fval list \<Rightarrow> error + fval" where
  "slip_penalty foot_vels contact_filt =
     (case broadcast2 slip_row foot_vels contact_filt of Inl e \<Rightarrow> Inl e
      | Inr rows \<Rightarrow> Inr (fsum (concat rows)))"

section \<open>The unit-interval catalog (\<^verbatim>\<open>rewards_test_k.py\<close>)\<close>

definition reward_lin_vel_z_k :: "Motion \<Rightarrow> error + fval" where
  "reward_lin_vel_z_k xd =
     (case row0 (vel xd) of Inl e \<Rightarrow> Inl e
      | Inr (vx, vy, vz) \<Rightarrow> Inr (fclip 0 1 (fdiv (fsquare vz) (Fin 4))))"

definition reward_ang_vel_xy_k :: "Motion \<Rightarrow> error + fval" where
  "reward_ang_vel_xy_k xd =
     (case row0 (ang xd) of Inl e \<Rightarrow> Inl e
      | Inr w \<Rightarrow> Inr (fclip 0 1 (fdiv (fsum (map fsquare (take 2 (list3 w)))) (Fin 25))))"

definition reward_tracking_orientation_k :: "fval list \<Rightarrow> Transform \<Rightarrow> fval \<Rightarrow> error + fval" where
  "reward_tracking_orientation_k desired_world_z_in_body_frame x tracking_sigma =
     (case orientation_error desired_world_z_in_body_frame x of Inl e \<Rightarrow> Inl e
      | Inr err \<Rightarrow> Inr (fclip 0 1 (fexp (fdiv (fneg err) (fadd tracking_sigma (Fin EPS))))))"

definition reward_orientation_k :: "Transform \<Rightarrow> error + fval" where
  "reward_orientation_k x =
     (case tilt x of Inl e \<Rightarrow> Inl e
      | Inr t \<Rightarrow> Inr (fclip 0 1 (fdiv t (Fin 2))))"

definition reward_torques_k :: "fval list \<Rightarrow> fval" where
  "reward_torques_k torques = fclip 0 1 (fdiv (fsum (map fsquare torques)) (Fin 1200))"

definition reward_joint_acceleration_k :: "fval list \<Rightarrow> fval list \<Rightarrow> fval \<Rightarrow> error + fval" where
  "reward_joint_acceleration_k joint_vel last_joint_vel dt =
     (case vsub joint_vel last_joint_vel of Inl e \<Rightarrow> Inl e
      | Inr d \<Rightarrow>
         (let acceleration = fsum (map (\<lambda>v. fsquare (fdiv v (fadd dt (Fin EPS)))) d)
          in Inr (fclip 0 1 (fdiv acceleration (Fin 120000)))))"

definition reward_mechanical_work_k :: "fval list \<Rightarrow> fval list \<Rightarrow> error + fval" where
  "reward_mechanical_work_k torques velocities =
     (case vmul torques velocities of Inl e \<Rightarrow> Inl e
      | Inr p \<Rightarrow> Inr (fclip 0 1 (fdiv (fsum (map fabs p)) (Fin 600))))"

definition reward_action_rate_k :: "fval list \<Rightarrow> fval list \<Rightarrow> error + fval" where
  "reward_action_rate_k act last_act =
     (case vsub act last_act of Inl e \<Rightarrow> Inl e
      | Inr d \<Rightarrow> Inr (fclip 0 1 (fdiv (fsum (map fsquare d)) (Fin 48))))"

definition reward_tracking_lin_vel_k :: "fval list \<Rightarrow> Transform \<Rightarrow> Motion \<Rightarrow> fval \<Rightarrow> error + fval" where
  "reward_tracking_lin_vel_k commands x xd tracking_sigma =
     (case lin_vel_error commands x xd of Inl e \<Rightarrow> Inl e
      | Inr err \<Rightarrow>
         (let lin_vel_reward = fexp (fdiv (fneg err) (fadd tracking_sigma (Fin EPS)))
          in Inr (fclip 0 1 lin_vel_reward)))"

definition reward_tracking_ang_vel_k :: "fval list \<Rightarrow> Transform \<Rightarrow> Motion \<Rightarrow> fval \<Rightarrow> error + fval" where
  "reward_tracking_ang_vel_k commands x xd tracking_sigma =
     (case ang_vel_error commands x xd of Inl e \<Rightarrow> Inl e
      | Inr err \<Rightarrow> Inr (fclip 0 1 (fexp (fdiv (fneg err) (fadd tracking_sigma (Fin EPS))))))"

definition reward_feet_air_time_k :: "fval list \<Rightarrow> fval list \<Rightarrow> fval list \<Rightarrow> fval \<Rightarrow> error + fval" where
  "reward_feet_air_time_k air_time first_contact commands minimum_airtime =
     (case vmul (map (\<lambda>a. fsub a minimum_airtime) air_time) first_contact of Inl e \<Rightarrow> Inl e
      | Inr p \<Rightarrow>
         (let rew_air_time = fsum p;
              rew_air_time = fgate rew_air_time
                 (fgt (snd (normalize_brax (take 3 commands))) (Fin (5 / 100)))
          in Inr (fclip 0 1 (fdiv rew_air_time (Fin 2)))))"

definition reward_abduction_angle_k :: "fval list \<Rightarrow> fval list \<Rightarrow> error + fval" where
  "reward_abduction_angle_k joint_angles desired_abduction_angles =
     (case vsub (every_third (drop 1 joint_angles)) desired_abduction_angles of Inl e \<Rightarrow> Inl e
      | Inr d \<Rightarrow> Inr (fclip 0 1 (fdiv (fsum (map fsquare d)) (Fin (pi\<^sup>2)))))"

definition reward_stand_still_k :: "fval list \<Rightarrow> fval list \<Rightarrow> fval list \<Rightarrow> fval \<Rightarrow> error + fval" where
  "reward_stand_still_k commands joint_angles default_pose command_threshold =
     (case vsub joint_angles default_pose of Inl e \<Rightarrow> Inl e
      | Inr d \<Rightarrow>
         (let penalty = fgate (fsum (map fabs d))
                 (flt (snd (normalize_brax (take 3 commands))) command_threshold)
          in Inr (fclip 0 1 (fdiv penalty (Fin (12 * pi))))))"

definition reward_foot_slip_k ::
  "(State \<Rightarrow> int list \<Rightarrow> int list \<Rightarrow> error + vec3 list) \<Rightarrow>
   State \<Rightarrow> fval list \<Rightarrow> int list \<Rightarrow> int list \<Rightarrow> error + fval" where
  "reward_foot_slip_k foot_vel pipeline_state contact_filt feet_site_id lower_leg_body_id =
     (case foot_vel pipeline_state feet_site_id lower_leg_body_id of Inl e \<Rightarrow> Inl e
      | Inr vs \<Rightarrow>
         (case slip_penalty vs contact_filt of Inl e \<Rightarrow> Inl e
          | Inr p \<Rightarrow> Inr (fclip 0 1 (fdiv p (Fin 16)))))"

definition reward_termination_k :: "bool \<Rightarrow> int \<Rightarrow> int \<Rightarrow> bool" where
  "reward_termination_k is_done step step_threshold = (is_done \<and> step < step_threshold)"

definition reward_geom_collision_k :: "State \<Rightarrow> int list \<Rightarrow> fval" where
  "reward_geom_collision_k pipeline_state geom_ids =
     fclip 0 1 (fdiv (collision_loop (contact pipeline_state) geom_ids (Fin 0)) (Fin 10))"

section \<open>The signed-wide catalog (\<^verbatim>\<open>rewards_test_w.py\<close>)\<close>

definition reward_lin_vel_z_w :: "Motion \<Rightarrow> error + fval" where
  "reward_lin_vel_z_w xd =
     (case row0 (vel xd) of Inl e \<Rightarrow> Inl e
      | Inr (vx, vy, vz) \<Rightarrow> Inr (fclip (- 1000) 1000 (fsquare vz)))"

definition reward_ang_vel_xy_w :: "Motion \<Rightarrow> error + fval" where
  "reward_ang_vel_xy_w xd =
     (case row0 (ang xd) of Inl e \<Rightarrow> Inl e
      | Inr w \<Rightarrow> Inr (fclip (- 1000) 1000 (fsum (map fsquare (take 2 (list3 w))))))"

definition reward_tracking_orientation_w :: "fval list \<Rightarrow> Transform \<Rightarrow> fval \<Rightarrow> error + fval" where
  "reward_tracking_orientation_w desired_world_z_in_body_frame x tracking_sigma =
     (case orientation_error desired_world_z_in_body_frame x of Inl e \<Rightarrow> Inl e
      | Inr err \<Rightarrow>
          Inr (fclip (- 1000) 1000 (fexp (fdiv (fneg err) (fadd tracking_sigma (Fin EPS))))))"

definition reward_orientation_w :: "Transform \<Rightarrow> error + fval" where
  "reward_orientation_w x =
     (case tilt x of Inl e \<Rightarrow> Inl e
      | Inr t \<Rightarrow> Inr (fclip (- 1000) 1000 t))"

definition reward_torques_w :: "fval list \<Rightarrow> fval" where
  "reward_torques_w torques = fclip (- 1000) 1000 (fsum (map fsquare torques))"

definition reward_joint_acceleration_w :: "fval list \<Rightarrow> fval list \<Rightarrow> fval \<Rightarrow> error + fval" where
  "reward_joint_acceleration_w joint_vel last_joint_vel dt =
     (case vsub joint_vel last_joint_vel of Inl e \<Rightarrow> Inl e
      | Inr d \<Rightarrow>
          Inr (fclip (- 1000) 1000
                 (fsum (map (\<lambda>v. fsquare (fdiv v (fadd dt (Fin EPS)))) d))))"

definition reward_mechanical_work_w :: "fval list \<Rightarrow> fval list \<Rightarrow> error + fval" where
  "reward_mechanical_work_w torques velocities =
     (case vmul torques velocities of Inl e \<Rightarrow> Inl e
      | Inr p \<Rightarrow> Inr (fclip (- 1000) 1000 (fsum (map fabs p))))"

definition reward_action_rate_w :: "fval list \<Rightarrow> fval list \<Rightarrow> error + fval" where
  "reward_action_rate_w act last_act =
     (case vsub act last_act of Inl e \<Rightarrow> Inl e
      | Inr d \<Rightarrow> Inr (fclip (- 1000) 1000 (fsum (map fsquare d))))"

definition reward_tracking_lin_vel_w :: "fval list \<Rightarrow> Transform \<Rightarrow> Motion \<Rightarrow> fval \<Rightarrow> error + fval" where
  "reward_tracking_lin_vel_w commands x xd tracking_sigma =
     (case lin_vel_error commands x xd of Inl e \<Rightarrow> Inl e
      | Inr err \<Rightarrow>
         (let lin_vel_reward = fexp (fdiv (fneg err) (fadd tracking_sigma (Fin EPS)))
          in Inr (fclip (- 1000) 1000 lin_vel_reward)))"

definition reward_tracking_ang_vel_w :: "fval list \<Rightarrow> Transform \<Rightarrow> Motion \<Rightarrow> fval \<Rightarrow> error + fval" where
  "reward_tracking_ang_vel_w commands x xd tracking_sigma =
     (case ang_vel_error commands x xd of Inl e \<Rightarrow> Inl e
      | Inr err \<Rightarrow>
          Inr (fclip (- 1000) 1000 (fexp (fdiv (fneg err) (fadd tracking_sigma (Fin EPS))))))"

definition reward_feet_air_time_w :: "fval list \<Rightarrow> fval list \<Rightarrow> fval list \<Rightarrow> fval \<Rightarrow> error + fval" where
  "reward_feet_air_time_w air_time first_contact commands minimum_airtime =
     (case vmul (map (\<lambda>a. fsub a minimum_airtime) air_time) first_contact of Inl e \<Rightarrow> Inl e
      | Inr p \<Rightarrow>
         (let rew_air_time = fsum p;
              rew_air_time = fgate rew_air_time
                 (fgt (snd (normalize_brax (take 3 commands))) (Fin (5 / 100)))
          in Inr (fclip (- 1000) 1000 rew_air_time)))"

definition reward_abduction_angle_w :: "fval list \<Rightarrow> fval list \<Rightarrow> error + fval" where
  "reward_abduction_angle_w joint_angles desired_abduction_angles =
     (case vsub (every_third (drop 1 joint_angles)) desired_abduction_angles of Inl e \<Rightarrow> Inl e
      | Inr d \<Rightarrow> Inr (fclip (- 1000) 1000 (fsum (map fsquare d))))"

definition reward_stand_still_w :: "fval list \<Rightarrow> fval list \<Rightarrow> fval list \<Rightarrow> fval \<Rightarrow> error + fval" where
  "reward_stand_still_w commands joint_angles default_pose command_threshold =
     (case vsub joint_angles default_pose of Inl e \<Rightarrow> Inl e
      | Inr d \<Rightarrow>
          Inr (fclip (- 1000) 1000
                 (fgate (fsum (map fabs d))
                    (flt (snd (normalize_brax (take 3 commands))) command_threshold))))"

definition reward_foot_slip_w ::
  "(State \<Rightarrow> int list \<Rightarrow> int list \<Rightarrow> error + vec3 list) \<Rightarrow>
   State \<Rightarrow> fval list \<Rightarrow> int list \<Rightarrow> int list \<Rightarrow> error + fval" where
  "reward_foot_slip_w foot_vel pipeline_state contact_filt feet_site_id lower_leg_body_id =
     (case foot_vel pipeline_state feet_site_id lower_leg_body_id of Inl e \<Rightarrow> Inl e
      | Inr vs \<Rightarrow>
         (case slip_penalty vs contact_filt of Inl e \<Rightarrow> Inl e
          | Inr p \<Rightarrow> Inr (fclip (- 1000) 1000 p)))"

definition reward_termination_w :: "bool \<Rightarrow> int \<Rightarrow> int \<Rightarrow> bool" where
  "reward_termination_w is_done step step_threshold = (is_done \<and> step < step_threshold)"

definition reward_geom_collision_w :: "State \<Rightarrow> int list \<Rightarrow> fval" where
  "reward_geom_collision_w pipeline_state geom_ids =
     fclip (- 1000) 1000 (collision_loop (contact pipeline_state) geom_ids (Fin 0))"

section \<open>Predicates for stating the properties\<close>

text \<open>A value lies in \<open>[lo, hi]\<close>: it is a real number in the interval; NaN and the infinities lie in none.\<close>

definition in_range :: "real \<Rightarrow> real \<Rightarrow> fval \<Rightarrow> bool" where
  "in_range lo hi v = (case v of Fin a \<Rightarrow> lo \<le> a \<and> a \<le> hi | _ \<Rightarrow> False)"

text \<open>A value is NaN or lies in the interval.\<close>

definition range_or_nan :: "real \<Rightarrow> real \<Rightarrow> fval \<Rightarrow> bool" where
  "range_or_nan lo hi v = (v = NaN \<or> in_range lo hi v)"

text \<open>A term that raised has no output; one that returned has an output that is NaN or in the interval.\<close>

definition bounded_or_nan :: "real \<Rightarrow> real \<Rightarrow> error + fval \<Rightarrow> bool" where
  "bounded_or_nan lo hi r = (case r of Inl e \<Rightarrow> True | Inr v \<Rightarrow> range_or_nan lo hi v)"

text \<open>A term that raised has no output; one that returned has its output in the interval.\<close>

definition bounded :: "real \<Rightarrow> real \<Rightarrow> error + fval \<Rightarrow> bool" where
  "bounded lo hi r = (case r of Inl e \<Rightarrow> True | Inr v \<Rightarrow> in_range lo hi v)"

text \<open>Every component of a row of a \<^verbatim>\<open>Motion\<close> is a real number.\<close>

definition fin3 :: "vec3 \<Rightarrow> bool" where
  "fin3 v = (case v of (a, b, c) \<Rightarrow> is_fin a \<and> is_fin b \<and> is_fin c)"

text \<open>A term returned a value, and the value lies in the interval.\<close>

definition in_bound :: "real \<Rightarrow> real \<Rightarrow> error + fval \<Rightarrow> bool" where
  "in_bound lo hi r = (case r of Inl e \<Rightarrow> False | Inr v \<Rightarrow> in_range lo hi v)"

text \<open>A term returned a real number.\<close>

definition finite_result :: "error + fval \<Rightarrow> bool" where
  "finite_result r = (case r of Inl e \<Rightarrow> False | Inr v \<Rightarrow> is_fin v)"

text \<open>
  The values a sum of squares can take: a non-negative real number, plus infinity or NaN.
\<close>

fun nonneg :: "fval \<Rightarrow> bool" where
  "nonneg (Fin a) = (0 \<le> a)"
| "nonneg PInf = True"
| "nonneg NInf = False"
| "nonneg NaN = True"

text \<open>The value of the exponential at a real argument that is not positive.\<close>

definition exp_value :: "real \<Rightarrow> real" where
  "exp_value a = (if a \<le> - 104 then 0 else exp a)"

text \<open>Two shapes on which an elementwise operation does not raise.\<close>

definition broadcastable :: "'a list \<Rightarrow> 'b list \<Rightarrow> bool" where
  "broadcastable xs ys = (length xs = length ys \<or> length xs = 1 \<or> length ys = 1)"

text \<open>
  The planar norm of a command, as the specification words the gates of
  \<^verbatim>\<open>feet_air_time\<close> and \<^verbatim>\<open>stand_still\<close>: the Euclidean norm of its first two components
  (forward and lateral velocity). The source takes \<^verbatim>\<open>math.normalize(commands[:3])[1]\<close>,
  which includes the yaw rate and is 0 for a command within \<open>1e-8\<close> of zero.
\<close>

definition planar_norm :: "fval list \<Rightarrow> fval" where
  "planar_norm commands = fsqrt (fsum (map fsquare (take 2 commands)))"

section \<open>Concrete snapshots\<close>

text \<open>
  A base falling at 2 m/s without rotating, an upright base, a foot-velocity function that
  reports one foot moving at (1, 1, 0), and a state with the two contacts of the
  specification's collision scenario.
\<close>

definition falling :: Motion where
  "falling = \<lparr>vel = [(Fin 0, Fin 0, Fin 2)], ang = [(Fin 0, Fin 0, Fin 0)]\<rparr>"

definition upright :: Transform where
  "upright = \<lparr>pos = [(Fin 0, Fin 0, Fin 0)], rot = [(Fin 1, Fin 0, Fin 0, Fin 0)]\<rparr>"

definition sliding_foot :: "State \<Rightarrow> int list \<Rightarrow> int list \<Rightarrow> error + vec3 list" where
  "sliding_foot st feet legs = Inr [(Fin 1, Fin 1, Fin 0)]"

definition two_contacts :: State where
  "two_contacts = \<lparr>site_xpos = [], xpos = [], body_xd = \<lparr>vel = [], ang = []\<rparr>,
     contact = [\<lparr>geom1 = 5, geom2 = 9, cdist = Fin (- (1 / 100))\<rparr>,
                \<lparr>geom1 = 1, geom2 = 2, cdist = Fin (1 / 2)\<rparr>]\<rparr>"

text \<open>
  A state whose only contact is apart, a contact between geometries 5 and 9 that
  penetrates by 0.01, and a state with \<open>k\<close> copies of that contact.
\<close>

definition apart :: State where
  "apart = \<lparr>site_xpos = [], xpos = [], body_xd = \<lparr>vel = [], ang = []\<rparr>,
     contact = [\<lparr>geom1 = 1, geom2 = 2, cdist = Fin (1 / 2)\<rparr>]\<rparr>"

definition knee_hit :: Contact where
  "knee_hit = \<lparr>geom1 = 5, geom2 = 9, cdist = Fin (- (1 / 100))\<rparr>"

definition crowded :: "nat \<Rightarrow> State" where
  "crowded k = \<lparr>site_xpos = [], xpos = [], body_xd = \<lparr>vel = [], ang = []\<rparr>,
     contact = replicate k knee_hit\<rparr>"

section \<open>Auxiliary facts\<close>

subsection \<open>The final clip\<close>

lemma fclip_range_or_nan: "lo \<le> hi \<Longrightarrow> range_or_nan lo hi (fclip lo hi v)"
  by (cases v) (auto simp: range_or_nan_def in_range_def)

lemma fclip_id: "lo \<le> a \<Longrightarrow> a \<le> hi \<Longrightarrow> fclip lo hi (Fin a) = Fin a"
  by simp

lemma in_boundI: "bounded_or_nan lo hi r \<Longrightarrow> finite_result r \<Longrightarrow> in_bound lo hi r"
  by (auto simp: bounded_or_nan_def in_bound_def range_or_nan_def finite_result_def split: sum.splits)

lemma in_rangeI: "range_or_nan lo hi v \<Longrightarrow> is_fin v \<Longrightarrow> in_range lo hi v"
  by (auto simp: range_or_nan_def)

subsection \<open>Each term ends in a clip\<close>

lemma lin_vel_z_bound:
  "bounded_or_nan 0 1 (reward_lin_vel_z_k xd) \<and> bounded_or_nan (- 1000) 1000 (reward_lin_vel_z_w xd)"
  by (simp add: reward_lin_vel_z_k_def reward_lin_vel_z_w_def bounded_or_nan_def fclip_range_or_nan
      split: sum.splits prod.splits)

lemma ang_vel_xy_bound:
  "bounded_or_nan 0 1 (reward_ang_vel_xy_k xd) \<and> bounded_or_nan (- 1000) 1000 (reward_ang_vel_xy_w xd)"
  by (simp add: reward_ang_vel_xy_k_def reward_ang_vel_xy_w_def bounded_or_nan_def fclip_range_or_nan
      split: sum.splits)

lemma tracking_orientation_bound:
  "bounded_or_nan 0 1 (reward_tracking_orientation_k d x s) \<and>
   bounded_or_nan (- 1000) 1000 (reward_tracking_orientation_w d x s)"
  by (simp add: reward_tracking_orientation_k_def reward_tracking_orientation_w_def bounded_or_nan_def
      fclip_range_or_nan split: sum.splits)

lemma orientation_bound:
  "bounded_or_nan 0 1 (reward_orientation_k x) \<and> bounded_or_nan (- 1000) 1000 (reward_orientation_w x)"
  by (simp add: reward_orientation_k_def reward_orientation_w_def bounded_or_nan_def fclip_range_or_nan
      split: sum.splits)

lemma torques_bound:
  "range_or_nan 0 1 (reward_torques_k torques) \<and>
   range_or_nan (- 1000) 1000 (reward_torques_w torques)"
  by (simp add: reward_torques_k_def reward_torques_w_def fclip_range_or_nan)

lemma joint_acceleration_bound:
  "bounded_or_nan 0 1 (reward_joint_acceleration_k jv lv dt) \<and>
   bounded_or_nan (- 1000) 1000 (reward_joint_acceleration_w jv lv dt)"
  by (simp add: reward_joint_acceleration_k_def reward_joint_acceleration_w_def bounded_or_nan_def
      fclip_range_or_nan Let_def split: sum.splits)

lemma mechanical_work_bound:
  "bounded_or_nan 0 1 (reward_mechanical_work_k t v) \<and> bounded_or_nan (- 1000) 1000 (reward_mechanical_work_w t v)"
  by (simp add: reward_mechanical_work_k_def reward_mechanical_work_w_def bounded_or_nan_def
      fclip_range_or_nan split: sum.splits)

lemma action_rate_bound:
  "bounded_or_nan 0 1 (reward_action_rate_k a b) \<and> bounded_or_nan (- 1000) 1000 (reward_action_rate_w a b)"
  by (simp add: reward_action_rate_k_def reward_action_rate_w_def bounded_or_nan_def
      fclip_range_or_nan split: sum.splits)

lemma tracking_lin_vel_bound:
  "bounded_or_nan 0 1 (reward_tracking_lin_vel_k c x xd s) \<and>
   bounded_or_nan (- 1000) 1000 (reward_tracking_lin_vel_w c x xd s)"
  by (simp add: reward_tracking_lin_vel_k_def reward_tracking_lin_vel_w_def bounded_or_nan_def
      fclip_range_or_nan Let_def split: sum.splits)

lemma tracking_ang_vel_bound:
  "bounded_or_nan 0 1 (reward_tracking_ang_vel_k c x xd s) \<and>
   bounded_or_nan (- 1000) 1000 (reward_tracking_ang_vel_w c x xd s)"
  by (simp add: reward_tracking_ang_vel_k_def reward_tracking_ang_vel_w_def bounded_or_nan_def
      fclip_range_or_nan split: sum.splits)

lemma feet_air_time_bound:
  "bounded_or_nan 0 1 (reward_feet_air_time_k a f c m) \<and>
   bounded_or_nan (- 1000) 1000 (reward_feet_air_time_w a f c m)"
  by (simp add: reward_feet_air_time_k_def reward_feet_air_time_w_def bounded_or_nan_def
      fclip_range_or_nan Let_def split: sum.splits)

lemma abduction_angle_bound:
  "bounded_or_nan 0 1 (reward_abduction_angle_k j d) \<and>
   bounded_or_nan (- 1000) 1000 (reward_abduction_angle_w j d)"
  by (simp add: reward_abduction_angle_k_def reward_abduction_angle_w_def bounded_or_nan_def
      fclip_range_or_nan split: sum.splits)

lemma stand_still_bound:
  "bounded_or_nan 0 1 (reward_stand_still_k c j d t) \<and>
   bounded_or_nan (- 1000) 1000 (reward_stand_still_w c j d t)"
  by (simp add: reward_stand_still_k_def reward_stand_still_w_def bounded_or_nan_def
      fclip_range_or_nan Let_def split: sum.splits)

lemma foot_slip_bound:
  "bounded_or_nan 0 1 (reward_foot_slip_k foot_vel st cf fs ll) \<and>
   bounded_or_nan (- 1000) 1000 (reward_foot_slip_w foot_vel st cf fs ll)"
  by (simp add: reward_foot_slip_k_def reward_foot_slip_w_def bounded_or_nan_def
      fclip_range_or_nan split: sum.splits)

lemma geom_collision_bound:
  "range_or_nan 0 1 (reward_geom_collision_k st ids) \<and>
   range_or_nan (- 1000) 1000 (reward_geom_collision_w st ids)"
  by (simp add: reward_geom_collision_k_def reward_geom_collision_w_def fclip_range_or_nan)

lemma termination_bound:
  "in_range 0 1 (of_mask (reward_termination_k d s t)) \<and>
   in_range (- 1000) 1000 (of_mask (reward_termination_w d s t))"
  by (simp add: of_mask_def in_range_def)

subsection \<open>Evaluation on concrete inputs and on finite arrays\<close>

lemmas eval_defs = falling_def upright_def sliding_foot_def two_contacts_def
  row0_def at_index_def vsub_def vmul_def broadcast2_def fsub_def fsquare_def of_mask_def fgate_def
  list3_def dot3_def cross3_def scale3_def add3_def rotate_brax_def quat_inv_def world_z_def
  orientation_error_def lin_vel_error_def ang_vel_error_def tilt_def slip_row_def slip_penalty_def
  allclose0_def safe_norm_def normalize_brax_def fgt_def touching_def Let_def EPS_def

lemma is_fin_iff: "is_fin v = (\<exists>a. v = Fin a)"
  by (cases v) auto

lemma is_fin_fadd [simp]: "is_fin u \<Longrightarrow> is_fin v \<Longrightarrow> is_fin (fadd u v)"
  by (cases u; cases v) auto

lemma is_fin_fmul [simp]: "is_fin u \<Longrightarrow> is_fin v \<Longrightarrow> is_fin (fmul u v)"
  by (cases u; cases v) auto

lemma is_fin_fsquare [simp]: "is_fin u \<Longrightarrow> is_fin (fsquare u)"
  by (simp add: fsquare_def)

lemma is_fin_fsum: "list_all is_fin xs \<Longrightarrow> is_fin (fsum xs)"
  by (induction xs) auto

lemma is_fin_sumsq: "list_all is_fin xs \<Longrightarrow> is_fin (fsum (map fsquare xs))"
  by (rule is_fin_fsum) (auto simp: list_all_iff)

lemma broadcast2_defined: "broadcastable xs ys \<Longrightarrow> \<exists>zs. broadcast2 f xs ys = Inr zs"
  by (auto simp: broadcastable_def broadcast2_def)

lemma vsub_Fin:
  "length xs = length ys \<Longrightarrow> vsub (map Fin xs) (map Fin ys) = Inr (map Fin (map2 (-) xs ys))"
  by (auto simp: vsub_def broadcast2_def fsub_def zip_map_map)

lemma sum_abs_Fin: "fsum (map fabs (map Fin zs)) = Fin (\<Sum>z\<leftarrow>zs. \<bar>z\<bar>)"
  by (induction zs) auto

lemma sum_sq_Fin: "fsum (map fsquare (map Fin zs)) = Fin (\<Sum>z\<leftarrow>zs. z\<^sup>2)"
  by (induction zs) (auto simp: fsquare_def power2_eq_square)

lemma abs_sum_nonneg: "0 \<le> (\<Sum>z\<leftarrow>zs. \<bar>z :: real\<bar>)"
  by (induction zs) auto

subsection \<open>Sums of squares and the tracking exponential\<close>

lemma nonneg_fsquare [simp]: "nonneg (fsquare v)"
  by (cases v) (auto simp: fsquare_def)

lemma nonneg_fadd [simp]: "nonneg u \<Longrightarrow> nonneg v \<Longrightarrow> nonneg (fadd u v)"
  by (cases u; cases v) auto

lemma nonneg_sumsq [simp]: "nonneg (fsum (map fsquare xs))"
  by (induction xs) auto

lemma orientation_error_nonneg: "orientation_error d x = Inr err \<Longrightarrow> nonneg err"
  by (auto simp: orientation_error_def split: sum.splits)

lemma lin_vel_error_nonneg: "lin_vel_error c x xd = Inr err \<Longrightarrow> nonneg err"
  by (auto simp: lin_vel_error_def split: sum.splits)

lemma ang_vel_error_nonneg: "ang_vel_error c x xd = Inr err \<Longrightarrow> nonneg err"
  by (auto simp: ang_vel_error_def split: sum.splits prod.splits)

lemma EPS_pos: "0 < EPS"
  by (simp add: EPS_def)

lemma fexp_nonpos: "a \<le> 0 \<Longrightarrow> fexp (Fin a) = Fin (exp_value a)"
  by (simp add: exp_value_def)

lemma exp_value_range: "a \<le> 0 \<Longrightarrow> 0 \<le> exp_value a \<and> exp_value a \<le> 1"
  by (simp add: exp_value_def)

lemma exp_value_mono: "a \<le> b \<Longrightarrow> exp_value a \<le> exp_value b"
  by (simp add: exp_value_def)

lemma exp_value_zero: "exp_value 0 = 1"
  by (simp add: exp_value_def)

lemma tracking_value:
  assumes "0 \<le> e" and "0 < s + EPS"
  shows "fclip 0 1 (fexp (fdiv (fneg (Fin e)) (fadd (Fin s) (Fin EPS)))) =
           Fin (exp_value (- e / (s + EPS)))"
    and "fclip (- 1000) 1000 (fexp (fdiv (fneg (Fin e)) (fadd (Fin s) (Fin EPS)))) =
           Fin (exp_value (- e / (s + EPS)))"
proof -
  have arg: "- e / (s + EPS) \<le> 0"
    using assms by (simp add: divide_nonpos_pos)
  have val: "fexp (fdiv (fneg (Fin e)) (fadd (Fin s) (Fin EPS))) = Fin (exp_value (- e / (s + EPS)))"
    using assms fexp_nonpos [OF arg] by simp
  note range = exp_value_range [OF arg]
  show "fclip 0 1 (fexp (fdiv (fneg (Fin e)) (fadd (Fin s) (Fin EPS)))) =
      Fin (exp_value (- e / (s + EPS)))"
    unfolding val using range by (intro fclip_id) simp_all
  show "fclip (- 1000) 1000 (fexp (fdiv (fneg (Fin e)) (fadd (Fin s) (Fin EPS)))) =
      Fin (exp_value (- e / (s + EPS)))"
    unfolding val using range by (intro fclip_id) linarith+
qed

subsection \<open>The collision count\<close>

lemma mask_sum_count: "fsum (map (\<lambda>c. of_mask (P c)) cs) = Fin (real (length (filter P cs)))"
  by (induction cs) (auto simp: of_mask_def)

lemma collision_loop_count:
  "collision_loop cs ids (Fin a) = Fin (a + (\<Sum>g\<leftarrow>ids. real (length (filter (touching g) cs))))"
  by (induction ids arbitrary: a) (simp_all add: mask_sum_count)

lemma collision_loop_cons:
  "collision_loop (c # cs) ids (Fin 0) =
     fadd (collision_loop cs ids (Fin 0)) (Fin (real (length (filter (\<lambda>g. touching g c) ids))))"
proof -
  have "(\<Sum>g\<leftarrow>ids. real (length (filter (touching g) (c # cs)))) =
      (\<Sum>g\<leftarrow>ids. real (length (filter (touching g) cs))) + real (length (filter (\<lambda>g. touching g c) ids))"
    by (induction ids) auto
  then show ?thesis
    by (simp add: collision_loop_count)
qed

lemma count_nonneg: "0 \<le> (\<Sum>g\<leftarrow>ids. real (length (filter (touching g) cs)))"
  by (induction ids) auto

lemma geom_collision_value:
  "reward_geom_collision_k st ids =
     Fin (min ((\<Sum>g\<leftarrow>ids. real (length (filter (touching g) (contact st)))) / 10) 1)"
  "reward_geom_collision_w st ids =
     Fin (min (\<Sum>g\<leftarrow>ids. real (length (filter (touching g) (contact st)))) 1000)"
  using count_nonneg [where ids = ids and cs = "contact st"]
  by (simp_all add: reward_geom_collision_k_def reward_geom_collision_w_def collision_loop_count
      max_absorb1)

lemma touching_hit: "\<exists>g\<in>set ids. touching g c \<Longrightarrow> 1 \<le> real (length (filter (\<lambda>g. touching g c) ids))"
proof -
  assume "\<exists>g\<in>set ids. touching g c"
  then have "filter (\<lambda>g. touching g c) ids \<noteq> []"
    by (simp add: filter_empty_conv)
  then have "0 < length (filter (\<lambda>g. touching g c) ids)"
    by simp
  then show ?thesis
    by linarith
qed

lemma count_cons:
  "(\<Sum>g\<leftarrow>ids. real (length (filter (touching g) (c # cs)))) =
   (\<Sum>g\<leftarrow>ids. real (length (filter (touching g) cs))) + real (length (filter (\<lambda>g. touching g c) ids))"
  by (induction ids) auto

lemma clip_step:
  fixes n m :: real
  assumes "1 \<le> m"
  shows "min (n / 10) 1 < 1 \<Longrightarrow> min (n / 10) 1 < min ((n + m) / 10) 1"
    and "min n 1000 < 1000 \<Longrightarrow> min n 1000 < min (n + m) 1000"
  using assms by (auto simp: min_def)

lemma clip_mono:
  fixes n m :: real
  assumes "0 \<le> m"
  shows "min (n / 10) 1 \<le> min ((n + m) / 10) 1" and "min n 1000 \<le> min (n + m) 1000"
  using assms by (auto simp: min_def)

subsection \<open>NaN and infinities in a sum of squares\<close>

lemma fsum_NaN: "NaN \<in> set xs \<Longrightarrow> fsum xs = NaN"
proof (induction xs)
  case Nil
  then show ?case by simp
next
  case (Cons x xs)
  show ?case
  proof (cases "x = NaN")
    case True
    then show ?thesis by simp
  next
    case False
    with Cons have "fsum xs = NaN" by simp
    then show ?thesis by (cases x) simp_all
  qed
qed

lemma fsquare_values:
  "fsquare (Fin a) = Fin (a * a)" "fsquare PInf = PInf" "fsquare NInf = PInf" "fsquare NaN = NaN"
  by (simp_all add: fsquare_def)

lemma sumsq_NaN: "NaN \<in> set xs \<Longrightarrow> fsum (map fsquare xs) = NaN"
proof -
  assume "NaN \<in> set xs"
  then have "fsquare NaN \<in> set (map fsquare xs)"
    by force
  then show ?thesis
    by (simp add: fsquare_values fsum_NaN)
qed

lemma sumsq_inf:
  "NaN \<notin> set xs \<Longrightarrow> PInf \<in> set xs \<or> NInf \<in> set xs \<Longrightarrow> fsum (map fsquare xs) = PInf"
proof (induction xs)
  case Nil
  then show ?case by simp
next
  case (Cons x xs)
  have rest: "fsum (map fsquare xs) = PInf \<or> (\<exists>a. fsum (map fsquare xs) = Fin a)"
    if "\<not> (PInf \<in> set xs \<or> NInf \<in> set xs)"
  proof -
    from that Cons.prems(1) have "list_all is_fin xs"
      by (auto simp: list_all_iff is_fin_iff) (metis fval.exhaust)
    then show ?thesis
      using is_fin_sumsq is_fin_iff by blast
  qed
  show ?case
  proof (cases "PInf \<in> set xs \<or> NInf \<in> set xs")
    case True
    with Cons have "fsum (map fsquare xs) = PInf" by simp
    moreover have "x \<noteq> NaN" using Cons.prems(1) by auto
    ultimately show ?thesis
      by (cases x) (simp_all add: fsquare_values)
  next
    case False
    with Cons.prems(2) have "x = PInf \<or> x = NInf" by auto
    then show ?thesis
      using rest [OF False] by (auto simp: fsquare_values)
  qed
qed

subsection \<open>The guarded denominators\<close>

lemma acceleration_Fin:
  "d \<noteq> 0 \<Longrightarrow>
   fsum (map (\<lambda>v. fsquare (fdiv v (Fin d))) (map Fin zs)) = Fin (\<Sum>z\<leftarrow>zs. (z / d)\<^sup>2)"
  by (induction zs) (auto simp: fsquare_values power2_eq_square)

lemma zero_plus_EPS: "fadd (Fin 0) (Fin EPS) = Fin EPS" "EPS \<noteq> 0"
  by (simp_all add: EPS_def)

lemma tracking_clip_agree:
  assumes "nonneg err" and "flt (Fin 0) d"
  shows "fclip 0 1 (fexp (fdiv (fneg err) d)) = fclip (- 1000) 1000 (fexp (fdiv (fneg err) d))"
proof (cases err)
  case (Fin e)
  then have e: "0 \<le> e"
    using assms(1) by simp
  show ?thesis
  proof (cases d)
    case (Fin p)
    then have p: "0 < p"
      using assms(2) by simp
    then have arg: "- e / p \<le> 0"
      using e by (simp add: divide_nonpos_pos)
    have quot: "fdiv (fneg (Fin e)) (Fin p) = Fin (- e / p)"
      using p by simp
    note range = exp_value_range [OF arg]
    have "fclip 0 1 (Fin (exp_value (- e / p))) = Fin (exp_value (- e / p))"
      using range by (intro fclip_id) simp_all
    moreover have "fclip (- 1000) 1000 (Fin (exp_value (- e / p))) = Fin (exp_value (- e / p))"
      using range by (intro fclip_id) linarith+
    ultimately show ?thesis
      by (simp only: \<open>err = Fin e\<close> \<open>d = Fin p\<close> quot fexp_nonpos [OF arg])
  qed (use assms(2) in \<open>simp_all add: \<open>err = Fin e\<close>\<close>)
next
  case PInf
  then show ?thesis
    using assms(2) by (cases d) simp_all
next
  case NInf
  then show ?thesis
    using assms(1) by simp
next
  case NaN
  then show ?thesis
    by simp
qed

subsection \<open>The norm of a finite command and the gate of \<^verbatim>\<open>reward_stand_still\<close>\<close>

lemma safe_norm_Fin:
  "safe_norm (map Fin xs) =
     Fin (if list_all (\<lambda>a. \<bar>a\<bar> \<le> 1 / 100000000) xs then 0 else sqrt (\<Sum>x\<leftarrow>xs. x\<^sup>2))"
proof -
  have close: "allclose0 (map Fin xs) = list_all (\<lambda>a. \<bar>a\<bar> \<le> 1 / 100000000) xs"
    by (simp add: allclose0_def list_all_iff)
  have "0 \<le> (\<Sum>x\<leftarrow>xs. x\<^sup>2)"
    by (induction xs) auto
  then show ?thesis
    by (simp only: safe_norm_def close sum_sq_Fin fsqrt.simps if_True split: if_splits) simp
qed

lemma sumsq_take_mono:
  fixes xs :: "real list"
  shows "(\<Sum>x\<leftarrow>take 2 xs. x\<^sup>2) \<le> (\<Sum>x\<leftarrow>take 3 xs. x\<^sup>2)"
proof -
  have "take 3 xs = take 2 xs @ take 1 (drop 2 xs)"
    using take_add [of 2 1 xs] by simp
  moreover have "0 \<le> (\<Sum>x\<leftarrow>take 1 (drop 2 xs). x\<^sup>2)"
    by (cases "drop 2 xs") auto
  ultimately show ?thesis
    by simp
qed

lemma sumsq_nonneg: "0 \<le> (\<Sum>x\<leftarrow>xs. (x :: real)\<^sup>2)"
  by (intro sum_list_nonneg) auto

lemma planar_norm_Fin: "planar_norm (map Fin cs) = Fin (sqrt (\<Sum>x\<leftarrow>take 2 cs. x\<^sup>2))"
  using sumsq_nonneg [of "take 2 cs"]
  by (simp only: planar_norm_def take_map sum_sq_Fin fsqrt.simps if_True)

lemma planar_le_norm:
  assumes "planar_norm (map Fin cs) = Fin p"
    and "snd (normalize_brax (take 3 (map Fin cs))) = Fin n" and "0 < n"
  shows "p \<le> n"
proof -
  have p: "p = sqrt (\<Sum>x\<leftarrow>take 2 cs. x\<^sup>2)"
    using assms(1) by (simp only: planar_norm_Fin fval.inject)
  have "n = (if list_all (\<lambda>a. \<bar>a\<bar> \<le> 1 / 100000000) (take 3 cs) then 0
             else sqrt (\<Sum>x\<leftarrow>take 3 cs. x\<^sup>2))"
    using assms(2) by (simp add: normalize_brax_def Let_def safe_norm_Fin take_map)
  then have n: "n = sqrt (\<Sum>x\<leftarrow>take 3 cs. x\<^sup>2)"
    using assms(3) by (simp split: if_splits)
  show ?thesis
    unfolding p n using sumsq_take_mono [of cs] by simp
qed

lemma stand_still_closed:
  assumes "broadcastable joint_angles default_pose"
    and "\<not> flt (snd (normalize_brax (take 3 commands))) thr"
  shows "reward_stand_still_k commands joint_angles default_pose thr = Inr (Fin 0) \<and>
         reward_stand_still_w commands joint_angles default_pose thr = Inr (Fin 0)"
proof -
  obtain d where d: "vsub joint_angles default_pose = Inr d"
    unfolding vsub_def using broadcast2_defined [OF assms(1)] by blast
  show ?thesis
    using assms(2) by (simp add: reward_stand_still_k_def reward_stand_still_w_def d fgate_def)
qed

lemma stand_still_open:
  assumes "length ja = length dp"
    and "flt (snd (normalize_brax (take 3 commands))) thr"
  shows "reward_stand_still_k commands (map Fin ja) (map Fin dp) thr =
           Inr (Fin (min ((\<Sum>z\<leftarrow>map2 (-) ja dp. \<bar>z\<bar>) / (12 * pi)) 1)) \<and>
         reward_stand_still_w commands (map Fin ja) (map Fin dp) thr =
           Inr (Fin (min (\<Sum>z\<leftarrow>map2 (-) ja dp. \<bar>z\<bar>) 1000))"
proof -
  let ?S = "\<Sum>z\<leftarrow>map2 (-) ja dp. \<bar>z\<bar>"
  have S: "0 \<le> ?S"
    by (rule abs_sum_nonneg)
  then have "0 \<le> ?S / (12 * pi)"
    by simp
  then have up: "max (?S / (12 * pi)) 0 = ?S / (12 * pi)"
    by (rule max_absorb1)
  have wide: "max ?S (- 1000) = ?S"
    using S by (intro max_absorb1) linarith
  have "reward_stand_still_k commands (map Fin ja) (map Fin dp) thr =
      Inr (fclip 0 1 (fdiv (Fin ?S) (Fin (12 * pi))))"
    and "reward_stand_still_w commands (map Fin ja) (map Fin dp) thr =
      Inr (fclip (- 1000) 1000 (Fin ?S))"
    using assms
    by (simp_all only: reward_stand_still_k_def reward_stand_still_w_def vsub_Fin sum_abs_Fin
        sum.case Let_def fgate_def if_True)
  then show ?thesis
    using up wide by simp
qed

subsection \<open>Terms that return no NaN on finite input\<close>

lemma is_fin_fneg [simp]: "is_fin v \<Longrightarrow> is_fin (fneg v)"
  by (cases v) auto

lemma is_fin_fsub [simp]: "is_fin u \<Longrightarrow> is_fin v \<Longrightarrow> is_fin (fsub u v)"
  by (simp add: fsub_def)

lemma is_fin_fabs [simp]: "is_fin u \<Longrightarrow> is_fin (fabs u)"
  by (cases u) auto

lemma is_fin_of_mask [simp]: "is_fin (of_mask b)"
  by (simp add: of_mask_def)

lemma is_fin_fdiv: "is_fin u \<Longrightarrow> is_fin v \<Longrightarrow> v \<noteq> Fin 0 \<Longrightarrow> is_fin (fdiv u v)"
  by (cases u; cases v) auto

lemma broadcast2_all:
  assumes "broadcast2 f xs ys = Inr zs" "list_all P xs" "list_all Q ys"
    and "\<And>a b. P a \<Longrightarrow> Q b \<Longrightarrow> R (f a b)"
  shows "list_all R zs"
proof -
  have hd_xs: "P (hd xs)" if "length xs = 1"
    using that assms(2) by (cases xs) auto
  have hd_ys: "Q (hd ys)" if "length ys = 1"
    using that assms(3) by (cases ys) auto
  show ?thesis
    using assms hd_xs hd_ys
    by (auto simp: broadcast2_def list_all_iff split: if_splits)
      (meson set_zip_leftD set_zip_rightD)
qed

lemma fin_list3 [simp]: "fin3 v \<Longrightarrow> list_all is_fin (list3 v)"
  by (auto simp: fin3_def list3_def split: prod.splits)

lemma list_all_take: "list_all P xs \<Longrightarrow> list_all P (take n xs)"
  by (auto simp: list_all_iff dest: in_set_takeD)

lemma list_all_drop: "list_all P xs \<Longrightarrow> list_all P (drop n xs)"
  by (auto simp: list_all_iff dest: in_set_dropD)

lemma is_fin_sumabs: "list_all is_fin xs \<Longrightarrow> is_fin (fsum (map fabs xs))"
  by (rule is_fin_fsum) (auto simp: list_all_iff)

lemma row0_all: "row0 xs = Inr x \<Longrightarrow> list_all P xs \<Longrightarrow> P x"
  by (cases xs) (auto simp: row0_def)

lemma vsub_fin: "vsub xs ys = Inr zs \<Longrightarrow> list_all is_fin xs \<Longrightarrow> list_all is_fin ys \<Longrightarrow> list_all is_fin zs"
  using broadcast2_all [of fsub xs ys zs is_fin is_fin is_fin] by (simp add: vsub_def)

lemma vmul_fin: "vmul xs ys = Inr zs \<Longrightarrow> list_all is_fin xs \<Longrightarrow> list_all is_fin ys \<Longrightarrow> list_all is_fin zs"
  using broadcast2_all [of fmul xs ys zs is_fin is_fin is_fin] by (simp add: vmul_def)

lemma list_all_every_third: "list_all P xs \<Longrightarrow> list_all P (every_third xs)"
  by (induction xs rule: every_third.induct) (auto intro: list_all_drop)

lemma mask_sum_fin: "is_fin (fsum (map (\<lambda>c. of_mask (P c)) cs))"
  by (induction cs) auto

lemma collision_loop_fin: "is_fin acc \<Longrightarrow> is_fin (collision_loop cs ids acc)"
  by (induction ids arbitrary: acc) (simp_all add: mask_sum_fin)

lemma fclip_fin_in_range: "lo \<le> hi \<Longrightarrow> is_fin v \<Longrightarrow> in_range lo hi (fclip lo hi v)"
  by (cases v) (auto simp: in_range_def)

lemma is_fin_fgate [simp]: "is_fin v \<Longrightarrow> is_fin (fgate v b)"
  by (simp add: fgate_def)

lemma lin_vel_z_finite:
  "list_all fin3 (vel xd) \<Longrightarrow>
   bounded 0 1 (reward_lin_vel_z_k xd) \<and> bounded (- 1000) 1000 (reward_lin_vel_z_w xd)"
  by (auto simp: reward_lin_vel_z_k_def reward_lin_vel_z_w_def bounded_def fin3_def
      split: sum.splits prod.splits dest!: row0_all intro!: fclip_fin_in_range is_fin_fdiv)

lemma ang_vel_xy_finite:
  "list_all fin3 (ang xd) \<Longrightarrow>
   bounded 0 1 (reward_ang_vel_xy_k xd) \<and> bounded (- 1000) 1000 (reward_ang_vel_xy_w xd)"
  by (auto simp: reward_ang_vel_xy_k_def reward_ang_vel_xy_w_def bounded_def
      split: sum.splits dest!: row0_all
      intro!: fclip_fin_in_range is_fin_fdiv is_fin_sumsq list_all_take)

lemma torques_finite:
  "list_all is_fin torques \<Longrightarrow>
   in_range 0 1 (reward_torques_k torques) \<and> in_range (- 1000) 1000 (reward_torques_w torques)"
  by (auto simp: reward_torques_k_def reward_torques_w_def
      intro!: fclip_fin_in_range is_fin_fdiv is_fin_sumsq)

lemma mechanical_work_finite:
  "list_all is_fin t \<Longrightarrow> list_all is_fin v \<Longrightarrow>
   bounded 0 1 (reward_mechanical_work_k t v) \<and>
   bounded (- 1000) 1000 (reward_mechanical_work_w t v)"
  by (auto simp: reward_mechanical_work_k_def reward_mechanical_work_w_def bounded_def
      split: sum.splits dest!: vmul_fin intro!: fclip_fin_in_range is_fin_fdiv is_fin_sumabs)

lemma action_rate_finite:
  "list_all is_fin a \<Longrightarrow> list_all is_fin b \<Longrightarrow>
   bounded 0 1 (reward_action_rate_k a b) \<and> bounded (- 1000) 1000 (reward_action_rate_w a b)"
  by (auto simp: reward_action_rate_k_def reward_action_rate_w_def bounded_def
      split: sum.splits dest!: vsub_fin intro!: fclip_fin_in_range is_fin_fdiv is_fin_sumsq)

lemma abduction_angle_finite:
  "list_all is_fin j \<Longrightarrow> list_all is_fin d \<Longrightarrow>
   bounded 0 1 (reward_abduction_angle_k j d) \<and>
   bounded (- 1000) 1000 (reward_abduction_angle_w j d)"
proof -
  assume j: "list_all is_fin j" and d: "list_all is_fin d"
  have "list_all is_fin (every_third (drop 1 j))"
    using j by (intro list_all_every_third list_all_drop)
  then have "is_fin (fsum (map fsquare z))" if "vsub (every_third (drop 1 j)) d = Inr z" for z
    using that d vsub_fin is_fin_sumsq by blast
  then show ?thesis
    by (auto simp: reward_abduction_angle_k_def reward_abduction_angle_w_def bounded_def
        split: sum.splits intro!: fclip_fin_in_range is_fin_fdiv)
qed

lemma stand_still_finite:
  "list_all is_fin j \<Longrightarrow> list_all is_fin d \<Longrightarrow>
   bounded 0 1 (reward_stand_still_k c j d t) \<and>
   bounded (- 1000) 1000 (reward_stand_still_w c j d t)"
  by (auto simp: reward_stand_still_k_def reward_stand_still_w_def bounded_def Let_def
      split: sum.splits dest!: vsub_fin
      intro!: fclip_fin_in_range is_fin_fdiv is_fin_fgate is_fin_sumabs)

lemma fin_sq_div: "is_fin v \<Longrightarrow> c \<noteq> 0 \<Longrightarrow> is_fin (fsquare (fdiv v (Fin c)))"
  by (cases v) (simp_all add: fsquare_def)

lemma is_fin_sumsq_div:
  "list_all is_fin z \<Longrightarrow> c \<noteq> 0 \<Longrightarrow> is_fin (fsum (map (\<lambda>v. fsquare (fdiv v (Fin c))) z))"
  by (rule is_fin_fsum) (simp add: list_all_iff fin_sq_div)

lemma joint_acceleration_finite:
  "list_all is_fin jv \<Longrightarrow> list_all is_fin lv \<Longrightarrow> is_fin dt \<Longrightarrow> dt \<noteq> Fin (- EPS) \<Longrightarrow>
   bounded 0 1 (reward_joint_acceleration_k jv lv dt) \<and>
   bounded (- 1000) 1000 (reward_joint_acceleration_w jv lv dt)"
proof -
  assume jv: "list_all is_fin jv" and lv: "list_all is_fin lv"
    and dt: "is_fin dt" "dt \<noteq> Fin (- EPS)"
  from dt obtain d where d: "dt = Fin d" "d + EPS \<noteq> 0"
    by (cases dt) auto
  have "is_fin (fsum (map (\<lambda>v. fsquare (fdiv v (Fin (d + EPS)))) z))"
    if "vsub jv lv = Inr z" for z
  proof -
    have "list_all is_fin z" using that jv lv vsub_fin by blast
    then show ?thesis using d(2) by (rule is_fin_sumsq_div)
  qed
  then show ?thesis
    by (auto simp: d(1) reward_joint_acceleration_k_def reward_joint_acceleration_w_def
        bounded_def split: sum.splits intro!: fclip_fin_in_range is_fin_fdiv)
qed

lemma geom_collision_finite:
  "in_range 0 1 (reward_geom_collision_k st ids) \<and>
   in_range (- 1000) 1000 (reward_geom_collision_w st ids)"
  by (auto simp: reward_geom_collision_k_def reward_geom_collision_w_def
      intro!: fclip_fin_in_range is_fin_fdiv collision_loop_fin)

section \<open>Bounds of the outputs\<close>

text \<open>
  C1, as stated, fails: with \<open>dt = -EPS\<close> the guarded denominator \<open>dt + EPS\<close> is zero, and a
  joint whose velocity did not change contributes 0/0. The result of
  \<^verbatim>\<open>reward_joint_acceleration\<close> is then NaN in both modules, and \<^verbatim>\<open>jp.clip\<close> returns NaN
  for NaN, which lies in no interval.
\<close>

theorem catalog_bounds_counterexample:
  "reward_joint_acceleration_k [Fin 0] [Fin 0] (Fin (- EPS)) = Inr NaN \<and>
   reward_joint_acceleration_w [Fin 0] [Fin 0] (Fin (- EPS)) = Inr NaN \<and>
   \<not> in_range 0 1 NaN \<and> \<not> in_range (- 1000) 1000 NaN"
  by (simp add: reward_joint_acceleration_k_def reward_joint_acceleration_w_def vsub_def
      broadcast2_def fsub_def fsquare_def in_range_def)

text \<open>
  C1, amended. For every input, every term of \<^verbatim>\<open>rewards_test_k.py\<close> that returns a value
  returns NaN or a value in [0,1], and every term of \<^verbatim>\<open>rewards_test_w.py\<close> returns NaN or a
  value in [-1000,1000]: the output is within the declared bound unless it is NaN. The
  boolean of \<^verbatim>\<open>reward_termination\<close>, read as 0 or 1, lies in both bounds. This part
  rests on the final clip alone, not on the arithmetic before it.

  NaN is excluded where the inputs are finite numbers: \<^verbatim>\<open>reward_lin_vel_z\<close>,
  \<^verbatim>\<open>reward_ang_vel_xy\<close>, \<^verbatim>\<open>reward_torques\<close>, \<^verbatim>\<open>reward_mechanical_work\<close>,
  \<^verbatim>\<open>reward_action_rate\<close>, \<^verbatim>\<open>reward_abduction_angle\<close> and \<^verbatim>\<open>reward_stand_still\<close> (for
  any command and threshold) then return a value within the bound whenever they return, and
  so does \<^verbatim>\<open>reward_joint_acceleration\<close> for a finite \<open>dt\<close> other than \<open>-EPS\<close>.
  \<^verbatim>\<open>reward_geom_collision\<close> is within the bound for every input.
\<close>

theorem catalog_bounds:
  "(bounded_or_nan 0 1 (reward_lin_vel_z_k xd) \<and>
    bounded_or_nan (- 1000) 1000 (reward_lin_vel_z_w xd) \<and>
    bounded_or_nan 0 1 (reward_ang_vel_xy_k xd) \<and>
    bounded_or_nan (- 1000) 1000 (reward_ang_vel_xy_w xd) \<and>
    bounded_or_nan 0 1 (reward_tracking_orientation_k desired_world_z_in_body_frame x tracking_sigma) \<and>
    bounded_or_nan (- 1000) 1000 (reward_tracking_orientation_w desired_world_z_in_body_frame x tracking_sigma) \<and>
    bounded_or_nan 0 1 (reward_orientation_k x) \<and>
    bounded_or_nan (- 1000) 1000 (reward_orientation_w x) \<and>
    range_or_nan 0 1 (reward_torques_k torques) \<and>
    range_or_nan (- 1000) 1000 (reward_torques_w torques) \<and>
    bounded_or_nan 0 1 (reward_joint_acceleration_k joint_vel last_joint_vel dt) \<and>
    bounded_or_nan (- 1000) 1000 (reward_joint_acceleration_w joint_vel last_joint_vel dt) \<and>
    bounded_or_nan 0 1 (reward_mechanical_work_k torques velocities) \<and>
    bounded_or_nan (- 1000) 1000 (reward_mechanical_work_w torques velocities) \<and>
    bounded_or_nan 0 1 (reward_action_rate_k act last_act) \<and>
    bounded_or_nan (- 1000) 1000 (reward_action_rate_w act last_act) \<and>
    bounded_or_nan 0 1 (reward_tracking_lin_vel_k commands x xd tracking_sigma) \<and>
    bounded_or_nan (- 1000) 1000 (reward_tracking_lin_vel_w commands x xd tracking_sigma) \<and>
    bounded_or_nan 0 1 (reward_tracking_ang_vel_k commands x xd tracking_sigma) \<and>
    bounded_or_nan (- 1000) 1000 (reward_tracking_ang_vel_w commands x xd tracking_sigma) \<and>
    bounded_or_nan 0 1 (reward_feet_air_time_k air_time first_contact commands minimum_airtime) \<and>
    bounded_or_nan (- 1000) 1000 (reward_feet_air_time_w air_time first_contact commands minimum_airtime) \<and>
    bounded_or_nan 0 1 (reward_abduction_angle_k joint_angles desired_abduction_angles) \<and>
    bounded_or_nan (- 1000) 1000 (reward_abduction_angle_w joint_angles desired_abduction_angles) \<and>
    bounded_or_nan 0 1 (reward_stand_still_k commands joint_angles default_pose command_threshold) \<and>
    bounded_or_nan (- 1000) 1000 (reward_stand_still_w commands joint_angles default_pose command_threshold) \<and>
    bounded_or_nan 0 1 (reward_foot_slip_k foot_vel pipeline_state contact_filt feet_site_id lower_leg_body_id) \<and>
    bounded_or_nan (- 1000) 1000 (reward_foot_slip_w foot_vel pipeline_state contact_filt feet_site_id lower_leg_body_id) \<and>
    in_range 0 1 (of_mask (reward_termination_k is_done step step_threshold)) \<and>
    in_range (- 1000) 1000 (of_mask (reward_termination_w is_done step step_threshold)) \<and>
    range_or_nan 0 1 (reward_geom_collision_k pipeline_state geom_ids) \<and>
    range_or_nan (- 1000) 1000 (reward_geom_collision_w pipeline_state geom_ids)) \<and>
    (list_all fin3 (vel xd) \<and> list_all fin3 (ang xd) \<and> list_all is_fin torques \<and>
     list_all is_fin velocities \<and> list_all is_fin act \<and> list_all is_fin last_act \<and>
     list_all is_fin joint_angles \<and> list_all is_fin desired_abduction_angles \<and>
     list_all is_fin default_pose \<longrightarrow>
       bounded 0 1 (reward_lin_vel_z_k xd) \<and>
       bounded (- 1000) 1000 (reward_lin_vel_z_w xd) \<and>
       bounded 0 1 (reward_ang_vel_xy_k xd) \<and>
       bounded (- 1000) 1000 (reward_ang_vel_xy_w xd) \<and>
       in_range 0 1 (reward_torques_k torques) \<and>
       in_range (- 1000) 1000 (reward_torques_w torques) \<and>
       bounded 0 1 (reward_mechanical_work_k torques velocities) \<and>
       bounded (- 1000) 1000 (reward_mechanical_work_w torques velocities) \<and>
       bounded 0 1 (reward_action_rate_k act last_act) \<and>
       bounded (- 1000) 1000 (reward_action_rate_w act last_act) \<and>
       bounded 0 1 (reward_abduction_angle_k joint_angles desired_abduction_angles) \<and>
       bounded (- 1000) 1000 (reward_abduction_angle_w joint_angles desired_abduction_angles) \<and>
       bounded 0 1 (reward_stand_still_k commands joint_angles default_pose command_threshold) \<and>
       bounded (- 1000) 1000
         (reward_stand_still_w commands joint_angles default_pose command_threshold)) \<and>
    (list_all is_fin joint_vel \<and> list_all is_fin last_joint_vel \<and> is_fin dt \<and>
     dt \<noteq> Fin (- EPS) \<longrightarrow>
       bounded 0 1 (reward_joint_acceleration_k joint_vel last_joint_vel dt) \<and>
       bounded (- 1000) 1000 (reward_joint_acceleration_w joint_vel last_joint_vel dt)) \<and>
    in_range 0 1 (reward_geom_collision_k pipeline_state geom_ids) \<and>
    in_range (- 1000) 1000 (reward_geom_collision_w pipeline_state geom_ids)"
proof -
  have every: "bounded_or_nan 0 1 (reward_lin_vel_z_k xd) \<and>
    bounded_or_nan (- 1000) 1000 (reward_lin_vel_z_w xd) \<and>
    bounded_or_nan 0 1 (reward_ang_vel_xy_k xd) \<and>
    bounded_or_nan (- 1000) 1000 (reward_ang_vel_xy_w xd) \<and>
    bounded_or_nan 0 1 (reward_tracking_orientation_k desired_world_z_in_body_frame x tracking_sigma) \<and>
    bounded_or_nan (- 1000) 1000 (reward_tracking_orientation_w desired_world_z_in_body_frame x tracking_sigma) \<and>
    bounded_or_nan 0 1 (reward_orientation_k x) \<and>
    bounded_or_nan (- 1000) 1000 (reward_orientation_w x) \<and>
    range_or_nan 0 1 (reward_torques_k torques) \<and>
    range_or_nan (- 1000) 1000 (reward_torques_w torques) \<and>
    bounded_or_nan 0 1 (reward_joint_acceleration_k joint_vel last_joint_vel dt) \<and>
    bounded_or_nan (- 1000) 1000 (reward_joint_acceleration_w joint_vel last_joint_vel dt) \<and>
    bounded_or_nan 0 1 (reward_mechanical_work_k torques velocities) \<and>
    bounded_or_nan (- 1000) 1000 (reward_mechanical_work_w torques velocities) \<and>
    bounded_or_nan 0 1 (reward_action_rate_k act last_act) \<and>
    bounded_or_nan (- 1000) 1000 (reward_action_rate_w act last_act) \<and>
    bounded_or_nan 0 1 (reward_tracking_lin_vel_k commands x xd tracking_sigma) \<and>
    bounded_or_nan (- 1000) 1000 (reward_tracking_lin_vel_w commands x xd tracking_sigma) \<and>
    bounded_or_nan 0 1 (reward_tracking_ang_vel_k commands x xd tracking_sigma) \<and>
    bounded_or_nan (- 1000) 1000 (reward_tracking_ang_vel_w commands x xd tracking_sigma) \<and>
    bounded_or_nan 0 1 (reward_feet_air_time_k air_time first_contact commands minimum_airtime) \<and>
    bounded_or_nan (- 1000) 1000 (reward_feet_air_time_w air_time first_contact commands minimum_airtime) \<and>
    bounded_or_nan 0 1 (reward_abduction_angle_k joint_angles desired_abduction_angles) \<and>
    bounded_or_nan (- 1000) 1000 (reward_abduction_angle_w joint_angles desired_abduction_angles) \<and>
    bounded_or_nan 0 1 (reward_stand_still_k commands joint_angles default_pose command_threshold) \<and>
    bounded_or_nan (- 1000) 1000 (reward_stand_still_w commands joint_angles default_pose command_threshold) \<and>
    bounded_or_nan 0 1 (reward_foot_slip_k foot_vel pipeline_state contact_filt feet_site_id lower_leg_body_id) \<and>
    bounded_or_nan (- 1000) 1000 (reward_foot_slip_w foot_vel pipeline_state contact_filt feet_site_id lower_leg_body_id) \<and>
    in_range 0 1 (of_mask (reward_termination_k is_done step step_threshold)) \<and>
    in_range (- 1000) 1000 (of_mask (reward_termination_w is_done step step_threshold)) \<and>
    range_or_nan 0 1 (reward_geom_collision_k pipeline_state geom_ids) \<and>
    range_or_nan (- 1000) 1000 (reward_geom_collision_w pipeline_state geom_ids)"
    using lin_vel_z_bound [of xd] ang_vel_xy_bound [of xd]
      tracking_orientation_bound [of desired_world_z_in_body_frame x tracking_sigma]
      orientation_bound [of x] torques_bound [of torques]
      joint_acceleration_bound [of joint_vel last_joint_vel dt]
      mechanical_work_bound [of torques velocities] action_rate_bound [of act last_act]
      tracking_lin_vel_bound [of commands x xd tracking_sigma]
      tracking_ang_vel_bound [of commands x xd tracking_sigma]
      feet_air_time_bound [of air_time first_contact commands minimum_airtime]
      abduction_angle_bound [of joint_angles desired_abduction_angles]
      stand_still_bound [of commands joint_angles default_pose command_threshold]
      foot_slip_bound [of foot_vel pipeline_state contact_filt feet_site_id lower_leg_body_id]
      termination_bound [of is_done step step_threshold]
      geom_collision_bound [of pipeline_state geom_ids]
    by blast
  have finite: "bounded 0 1 (reward_lin_vel_z_k xd) \<and>
      bounded (- 1000) 1000 (reward_lin_vel_z_w xd) \<and>
      bounded 0 1 (reward_ang_vel_xy_k xd) \<and>
      bounded (- 1000) 1000 (reward_ang_vel_xy_w xd) \<and>
      in_range 0 1 (reward_torques_k torques) \<and>
      in_range (- 1000) 1000 (reward_torques_w torques) \<and>
      bounded 0 1 (reward_mechanical_work_k torques velocities) \<and>
      bounded (- 1000) 1000 (reward_mechanical_work_w torques velocities) \<and>
      bounded 0 1 (reward_action_rate_k act last_act) \<and>
      bounded (- 1000) 1000 (reward_action_rate_w act last_act) \<and>
      bounded 0 1 (reward_abduction_angle_k joint_angles desired_abduction_angles) \<and>
      bounded (- 1000) 1000 (reward_abduction_angle_w joint_angles desired_abduction_angles) \<and>
      bounded 0 1 (reward_stand_still_k commands joint_angles default_pose command_threshold) \<and>
      bounded (- 1000) 1000
        (reward_stand_still_w commands joint_angles default_pose command_threshold)"
    if "list_all fin3 (vel xd)" "list_all fin3 (ang xd)" "list_all is_fin torques"
      "list_all is_fin velocities" "list_all is_fin act" "list_all is_fin last_act"
      "list_all is_fin joint_angles" "list_all is_fin desired_abduction_angles"
      "list_all is_fin default_pose"
    using lin_vel_z_finite [OF that(1)] ang_vel_xy_finite [OF that(2)]
      torques_finite [OF that(3)] mechanical_work_finite [OF that(3) that(4)]
      action_rate_finite [OF that(5) that(6)] abduction_angle_finite [OF that(7) that(8)]
      stand_still_finite [OF that(7) that(9), of commands command_threshold]
    by blast
  show ?thesis
    using every finite joint_acceleration_finite [of joint_vel last_joint_vel dt]
      geom_collision_finite [of pipeline_state geom_ids]
    by blast
qed

text \<open>
  The theorem at a concrete snapshot; there each term returns a real number, which is
  therefore in its interval.
\<close>

theorem catalog_bounds_witness:
  "in_bound 0 1 (reward_lin_vel_z_k falling) \<and>
   in_bound (- 1000) 1000 (reward_lin_vel_z_w falling) \<and>
   in_bound 0 1 (reward_ang_vel_xy_k falling) \<and>
   in_bound (- 1000) 1000 (reward_ang_vel_xy_w falling) \<and>
   in_bound 0 1 (reward_tracking_orientation_k [Fin 0, Fin 0, Fin 1] upright (Fin (1 / 4))) \<and>
   in_bound (- 1000) 1000 (reward_tracking_orientation_w [Fin 0, Fin 0, Fin 1] upright (Fin (1 / 4))) \<and>
   in_bound 0 1 (reward_orientation_k upright) \<and>
   in_bound (- 1000) 1000 (reward_orientation_w upright) \<and>
   in_range 0 1 (reward_torques_k [Fin 10, Fin 10]) \<and>
   in_range (- 1000) 1000 (reward_torques_w [Fin 10, Fin 10]) \<and>
   in_bound 0 1 (reward_joint_acceleration_k [Fin 1, Fin 2] [Fin 0, Fin 3] (Fin (1 / 50))) \<and>
   in_bound (- 1000) 1000 (reward_joint_acceleration_w [Fin 1, Fin 2] [Fin 0, Fin 3] (Fin (1 / 50))) \<and>
   in_bound 0 1 (reward_mechanical_work_k [Fin 10, Fin 10] [Fin 1, Fin (- 1)]) \<and>
   in_bound (- 1000) 1000 (reward_mechanical_work_w [Fin 10, Fin 10] [Fin 1, Fin (- 1)]) \<and>
   in_bound 0 1 (reward_action_rate_k [Fin 1, Fin 0] [Fin 0, Fin 0]) \<and>
   in_bound (- 1000) 1000 (reward_action_rate_w [Fin 1, Fin 0] [Fin 0, Fin 0]) \<and>
   in_bound 0 1 (reward_tracking_lin_vel_k [Fin 1, Fin 0, Fin 0] upright falling (Fin (1 / 4))) \<and>
   in_bound (- 1000) 1000 (reward_tracking_lin_vel_w [Fin 1, Fin 0, Fin 0] upright falling (Fin (1 / 4))) \<and>
   in_bound 0 1 (reward_tracking_ang_vel_k [Fin 1, Fin 0, Fin 0] upright falling (Fin (1 / 4))) \<and>
   in_bound (- 1000) 1000 (reward_tracking_ang_vel_w [Fin 1, Fin 0, Fin 0] upright falling (Fin (1 / 4))) \<and>
   in_bound 0 1 (reward_feet_air_time_k [Fin 1, Fin 0] [Fin 1, Fin 0] [Fin 1, Fin 0, Fin 0] (Fin (1 / 10))) \<and>
   in_bound (- 1000) 1000 (reward_feet_air_time_w [Fin 1, Fin 0] [Fin 1, Fin 0] [Fin 1, Fin 0, Fin 0] (Fin (1 / 10))) \<and>
   in_bound 0 1 (reward_abduction_angle_k [Fin 0, Fin 1] [Fin 0]) \<and>
   in_bound (- 1000) 1000 (reward_abduction_angle_w [Fin 0, Fin 1] [Fin 0]) \<and>
   in_bound 0 1 (reward_stand_still_k [Fin 1, Fin 0, Fin 0] [Fin 0, Fin 1] [Fin 0, Fin 0] (Fin (1 / 10))) \<and>
   in_bound (- 1000) 1000 (reward_stand_still_w [Fin 1, Fin 0, Fin 0] [Fin 0, Fin 1] [Fin 0, Fin 0] (Fin (1 / 10))) \<and>
   in_bound 0 1 (reward_foot_slip_k sliding_foot two_contacts [Fin 1] [0] [1]) \<and>
   in_bound (- 1000) 1000 (reward_foot_slip_w sliding_foot two_contacts [Fin 1] [0] [1]) \<and>
   in_range 0 1 (of_mask (reward_termination_k True 3 5)) \<and>
   in_range (- 1000) 1000 (of_mask (reward_termination_w True 3 5)) \<and>
   in_range 0 1 (reward_geom_collision_k two_contacts [9]) \<and>
   in_range (- 1000) 1000 (reward_geom_collision_w two_contacts [9])"
proof -
  have inst: "bounded_or_nan 0 1 (reward_lin_vel_z_k falling) \<and>
    bounded_or_nan (- 1000) 1000 (reward_lin_vel_z_w falling) \<and>
    bounded_or_nan 0 1 (reward_ang_vel_xy_k falling) \<and>
    bounded_or_nan (- 1000) 1000 (reward_ang_vel_xy_w falling) \<and>
    bounded_or_nan 0 1 (reward_tracking_orientation_k [Fin 0, Fin 0, Fin 1] upright (Fin (1 / 4))) \<and>
    bounded_or_nan (- 1000) 1000 (reward_tracking_orientation_w [Fin 0, Fin 0, Fin 1] upright (Fin (1 / 4))) \<and>
    bounded_or_nan 0 1 (reward_orientation_k upright) \<and>
    bounded_or_nan (- 1000) 1000 (reward_orientation_w upright) \<and>
    range_or_nan 0 1 (reward_torques_k [Fin 10, Fin 10]) \<and>
    range_or_nan (- 1000) 1000 (reward_torques_w [Fin 10, Fin 10]) \<and>
    bounded_or_nan 0 1 (reward_joint_acceleration_k [Fin 1, Fin 2] [Fin 0, Fin 3] (Fin (1 / 50))) \<and>
    bounded_or_nan (- 1000) 1000 (reward_joint_acceleration_w [Fin 1, Fin 2] [Fin 0, Fin 3] (Fin (1 / 50))) \<and>
    bounded_or_nan 0 1 (reward_mechanical_work_k [Fin 10, Fin 10] [Fin 1, Fin (- 1)]) \<and>
    bounded_or_nan (- 1000) 1000 (reward_mechanical_work_w [Fin 10, Fin 10] [Fin 1, Fin (- 1)]) \<and>
    bounded_or_nan 0 1 (reward_action_rate_k [Fin 1, Fin 0] [Fin 0, Fin 0]) \<and>
    bounded_or_nan (- 1000) 1000 (reward_action_rate_w [Fin 1, Fin 0] [Fin 0, Fin 0]) \<and>
    bounded_or_nan 0 1 (reward_tracking_lin_vel_k [Fin 1, Fin 0, Fin 0] upright falling (Fin (1 / 4))) \<and>
    bounded_or_nan (- 1000) 1000 (reward_tracking_lin_vel_w [Fin 1, Fin 0, Fin 0] upright falling (Fin (1 / 4))) \<and>
    bounded_or_nan 0 1 (reward_tracking_ang_vel_k [Fin 1, Fin 0, Fin 0] upright falling (Fin (1 / 4))) \<and>
    bounded_or_nan (- 1000) 1000 (reward_tracking_ang_vel_w [Fin 1, Fin 0, Fin 0] upright falling (Fin (1 / 4))) \<and>
    bounded_or_nan 0 1 (reward_feet_air_time_k [Fin 1, Fin 0] [Fin 1, Fin 0] [Fin 1, Fin 0, Fin 0] (Fin (1 / 10))) \<and>
    bounded_or_nan (- 1000) 1000 (reward_feet_air_time_w [Fin 1, Fin 0] [Fin 1, Fin 0] [Fin 1, Fin 0, Fin 0] (Fin (1 / 10))) \<and>
    bounded_or_nan 0 1 (reward_abduction_angle_k [Fin 0, Fin 1] [Fin 0]) \<and>
    bounded_or_nan (- 1000) 1000 (reward_abduction_angle_w [Fin 0, Fin 1] [Fin 0]) \<and>
    bounded_or_nan 0 1 (reward_stand_still_k [Fin 1, Fin 0, Fin 0] [Fin 0, Fin 1] [Fin 0, Fin 0] (Fin (1 / 10))) \<and>
    bounded_or_nan (- 1000) 1000 (reward_stand_still_w [Fin 1, Fin 0, Fin 0] [Fin 0, Fin 1] [Fin 0, Fin 0] (Fin (1 / 10))) \<and>
    bounded_or_nan 0 1 (reward_foot_slip_k sliding_foot two_contacts [Fin 1] [0] [1]) \<and>
    bounded_or_nan (- 1000) 1000 (reward_foot_slip_w sliding_foot two_contacts [Fin 1] [0] [1]) \<and>
    in_range 0 1 (of_mask (reward_termination_k True 3 5)) \<and>
    in_range (- 1000) 1000 (of_mask (reward_termination_w True 3 5)) \<and>
    range_or_nan 0 1 (reward_geom_collision_k two_contacts [9]) \<and>
    range_or_nan (- 1000) 1000 (reward_geom_collision_w two_contacts [9])"
    by (rule catalog_bounds [THEN conjunct1])
  have finite: "bounded 0 1 (reward_lin_vel_z_k falling) \<and>
    bounded (- 1000) 1000 (reward_lin_vel_z_w falling) \<and>
    bounded 0 1 (reward_ang_vel_xy_k falling) \<and>
    bounded (- 1000) 1000 (reward_ang_vel_xy_w falling) \<and>
    in_range 0 1 (reward_torques_k [Fin 10, Fin 10]) \<and>
    in_range (- 1000) 1000 (reward_torques_w [Fin 10, Fin 10]) \<and>
    bounded 0 1 (reward_mechanical_work_k [Fin 10, Fin 10] [Fin 1, Fin (- 1)]) \<and>
    bounded (- 1000) 1000 (reward_mechanical_work_w [Fin 10, Fin 10] [Fin 1, Fin (- 1)]) \<and>
    bounded 0 1 (reward_action_rate_k [Fin 1, Fin 0] [Fin 0, Fin 0]) \<and>
    bounded (- 1000) 1000 (reward_action_rate_w [Fin 1, Fin 0] [Fin 0, Fin 0]) \<and>
    bounded 0 1 (reward_abduction_angle_k [Fin 0, Fin 1] [Fin 0]) \<and>
    bounded (- 1000) 1000 (reward_abduction_angle_w [Fin 0, Fin 1] [Fin 0]) \<and>
    bounded 0 1 (reward_stand_still_k [Fin 1, Fin 0, Fin 0] [Fin 0, Fin 1] [Fin 0, Fin 0] (Fin (1 / 10))) \<and>
    bounded (- 1000) 1000
      (reward_stand_still_w [Fin 1, Fin 0, Fin 0] [Fin 0, Fin 1] [Fin 0, Fin 0] (Fin (1 / 10)))"
    by (rule catalog_bounds [THEN conjunct2, THEN conjunct1, THEN mp])
      (simp add: falling_def fin3_def)
  have guarded: "bounded 0 1 (reward_joint_acceleration_k [Fin 1, Fin 2] [Fin 0, Fin 3] (Fin (1 / 50))) \<and>
    bounded (- 1000) 1000 (reward_joint_acceleration_w [Fin 1, Fin 2] [Fin 0, Fin 3] (Fin (1 / 50)))"
    by (rule catalog_bounds [THEN conjunct2, THEN conjunct2, THEN conjunct1, THEN mp])
      (simp add: EPS_def)
  have returns:
    "finite_result (reward_lin_vel_z_k falling)"
    "finite_result (reward_lin_vel_z_w falling)"
    "finite_result (reward_ang_vel_xy_k falling)"
    "finite_result (reward_ang_vel_xy_w falling)"
    "finite_result (reward_tracking_orientation_k [Fin 0, Fin 0, Fin 1] upright (Fin (1 / 4)))"
    "finite_result (reward_tracking_orientation_w [Fin 0, Fin 0, Fin 1] upright (Fin (1 / 4)))"
    "finite_result (reward_orientation_k upright)"
    "finite_result (reward_orientation_w upright)"
    "finite_result (reward_joint_acceleration_k [Fin 1, Fin 2] [Fin 0, Fin 3] (Fin (1 / 50)))"
    "finite_result (reward_joint_acceleration_w [Fin 1, Fin 2] [Fin 0, Fin 3] (Fin (1 / 50)))"
    "finite_result (reward_mechanical_work_k [Fin 10, Fin 10] [Fin 1, Fin (- 1)])"
    "finite_result (reward_mechanical_work_w [Fin 10, Fin 10] [Fin 1, Fin (- 1)])"
    "finite_result (reward_action_rate_k [Fin 1, Fin 0] [Fin 0, Fin 0])"
    "finite_result (reward_action_rate_w [Fin 1, Fin 0] [Fin 0, Fin 0])"
    "finite_result (reward_tracking_lin_vel_k [Fin 1, Fin 0, Fin 0] upright falling (Fin (1 / 4)))"
    "finite_result (reward_tracking_lin_vel_w [Fin 1, Fin 0, Fin 0] upright falling (Fin (1 / 4)))"
    "finite_result (reward_tracking_ang_vel_k [Fin 1, Fin 0, Fin 0] upright falling (Fin (1 / 4)))"
    "finite_result (reward_tracking_ang_vel_w [Fin 1, Fin 0, Fin 0] upright falling (Fin (1 / 4)))"
    "finite_result (reward_feet_air_time_k [Fin 1, Fin 0] [Fin 1, Fin 0] [Fin 1, Fin 0, Fin 0] (Fin (1 / 10)))"
    "finite_result (reward_feet_air_time_w [Fin 1, Fin 0] [Fin 1, Fin 0] [Fin 1, Fin 0, Fin 0] (Fin (1 / 10)))"
    "finite_result (reward_abduction_angle_k [Fin 0, Fin 1] [Fin 0])"
    "finite_result (reward_abduction_angle_w [Fin 0, Fin 1] [Fin 0])"
    "finite_result (reward_stand_still_k [Fin 1, Fin 0, Fin 0] [Fin 0, Fin 1] [Fin 0, Fin 0] (Fin (1 / 10)))"
    "finite_result (reward_stand_still_w [Fin 1, Fin 0, Fin 0] [Fin 0, Fin 1] [Fin 0, Fin 0] (Fin (1 / 10)))"
    "finite_result (reward_foot_slip_k sliding_foot two_contacts [Fin 1] [0] [1])"
    "finite_result (reward_foot_slip_w sliding_foot two_contacts [Fin 1] [0] [1])"
    "is_fin (reward_torques_k [Fin 10, Fin 10])"
    "is_fin (reward_torques_w [Fin 10, Fin 10])"
    "is_fin (reward_geom_collision_k two_contacts [9])"
    "is_fin (reward_geom_collision_w two_contacts [9])"
    by (simp_all add: reward_lin_vel_z_k_def reward_lin_vel_z_w_def
        reward_ang_vel_xy_k_def reward_ang_vel_xy_w_def
        reward_tracking_orientation_k_def reward_tracking_orientation_w_def
        reward_orientation_k_def reward_orientation_w_def
        reward_joint_acceleration_k_def reward_joint_acceleration_w_def
        reward_mechanical_work_k_def reward_mechanical_work_w_def
        reward_action_rate_k_def reward_action_rate_w_def
        reward_tracking_lin_vel_k_def reward_tracking_lin_vel_w_def
        reward_tracking_ang_vel_k_def reward_tracking_ang_vel_w_def
        reward_feet_air_time_k_def reward_feet_air_time_w_def
        reward_abduction_angle_k_def reward_abduction_angle_w_def
        reward_stand_still_k_def reward_stand_still_w_def
        reward_foot_slip_k_def reward_foot_slip_w_def reward_torques_k_def reward_torques_w_def
        reward_geom_collision_k_def reward_geom_collision_w_def finite_result_def eval_defs)
  show ?thesis
    using inst finite guarded returns by (auto intro: in_boundI in_rangeI)
qed

section \<open>Termination\<close>

text \<open>
  C2. For every done flag, step count and step threshold, \<^verbatim>\<open>reward_termination\<close> of either
  module is true exactly when the flag is set and the step is below the threshold; at
  \<open>step = step_threshold\<close> it is false.
\<close>

theorem termination_iff:
  "reward_termination_k is_done step step_threshold = (is_done \<and> step < step_threshold) \<and>
   reward_termination_w is_done step step_threshold = (is_done \<and> step < step_threshold) \<and>
   reward_termination_k is_done step_threshold step_threshold = False \<and>
   reward_termination_w is_done step_threshold step_threshold = False"
  by (simp add: reward_termination_k_def reward_termination_w_def)

section \<open>The gate of \<^verbatim>\<open>reward_feet_air_time\<close>\<close>

text \<open>
  C3, as stated, fails: the command (0, 0, 1) is a pure yaw command. Its planar norm is 0,
  which is at most 0.05, but the source gates on the norm of all three components, which
  is 1; a foot that touches down after 1.1 s in the air is rewarded with 0.5 by the
  unit-interval module and with 1 by the signed-wide module.
\<close>

theorem feet_air_time_planar_counterexample:
  "planar_norm [Fin 0, Fin 0, Fin 1] = Fin 0 \<and>
   reward_feet_air_time_k [Fin (11 / 10)] [Fin 1] [Fin 0, Fin 0, Fin 1] (Fin (1 / 10)) = Inr (Fin (1 / 2)) \<and>
   reward_feet_air_time_w [Fin (11 / 10)] [Fin 1] [Fin 0, Fin 0, Fin 1] (Fin (1 / 10)) = Inr (Fin 1)"
  by (simp add: planar_norm_def reward_feet_air_time_k_def reward_feet_air_time_w_def eval_defs)

text \<open>
  C3, amended. For a command whose norm over its first three components (forward, lateral
  and yaw rate), as \<^verbatim>\<open>math.normalize\<close> returns it, is at most 0.05,
  \<^verbatim>\<open>reward_feet_air_time\<close> returns exactly 0 in both modules, regardless of the air times,
  the first-contact mask and the minimum air time, as long as their shapes broadcast.
\<close>

theorem feet_air_time_zero_command:
  assumes "broadcastable air_time first_contact"
    and "snd (normalize_brax (take 3 commands)) = Fin n" and "n \<le> 5 / 100"
  shows "reward_feet_air_time_k air_time first_contact commands minimum_airtime = Inr (Fin 0) \<and>
         reward_feet_air_time_w air_time first_contact commands minimum_airtime = Inr (Fin 0)"
proof -
  let ?shifted = "map (\<lambda>a. fsub a minimum_airtime) air_time"
  have "broadcastable ?shifted first_contact"
    using assms(1) by (simp add: broadcastable_def)
  then obtain p where p: "vmul ?shifted first_contact = Inr p"
    unfolding vmul_def using broadcast2_defined by blast
  have gate: "fgt (snd (normalize_brax (take 3 commands))) (Fin (5 / 100)) = False"
    using assms(2,3) by (simp add: fgt_def)
  show ?thesis
    using gate
    by (simp add: reward_feet_air_time_k_def reward_feet_air_time_w_def p fgate_def)
qed

theorem feet_air_time_zero_command_witness:
  "reward_feet_air_time_k [Fin (11 / 10), PInf] [Fin 1, Fin 1] [Fin 0, Fin 0, Fin 0] (Fin (1 / 10)) =
     Inr (Fin 0) \<and>
   reward_feet_air_time_w [Fin (11 / 10), PInf] [Fin 1, Fin 1] [Fin 0, Fin 0, Fin 0] (Fin (1 / 10)) =
     Inr (Fin 0)"
  by (rule feet_air_time_zero_command [where n = 0])
    (simp_all add: broadcastable_def normalize_brax_def safe_norm_def allclose0_def Let_def)

section \<open>The gate of \<^verbatim>\<open>reward_stand_still\<close>\<close>

text \<open>
  C4, as stated, fails in both halves. For the pure yaw command (0, 0, 1) and the threshold
  0.5 the planar norm 0 is below the threshold, yet the result is 0 whether the joints
  deviate from the default pose by 1 or by 2: the source gates on the norm of all three
  command components. For the command (1e-8, 0, 0) and the threshold 1e-9 the planar norm
  is at least the threshold, yet the penalty is paid: \<^verbatim>\<open>math.normalize\<close> returns the norm 0
  for a command within 1e-8 of zero.
\<close>

theorem stand_still_planar_counterexample:
  "planar_norm [Fin 0, Fin 0, Fin 1] = Fin 0 \<and> flt (Fin 0) (Fin (1 / 2)) \<and>
   reward_stand_still_k [Fin 0, Fin 0, Fin 1] [Fin 1] [Fin 0] (Fin (1 / 2)) = Inr (Fin 0) \<and>
   reward_stand_still_k [Fin 0, Fin 0, Fin 1] [Fin 2] [Fin 0] (Fin (1 / 2)) = Inr (Fin 0) \<and>
   reward_stand_still_w [Fin 0, Fin 0, Fin 1] [Fin 1] [Fin 0] (Fin (1 / 2)) = Inr (Fin 0) \<and>
   reward_stand_still_w [Fin 0, Fin 0, Fin 1] [Fin 2] [Fin 0] (Fin (1 / 2)) = Inr (Fin 0) \<and>
   planar_norm [Fin (1 / 100000000), Fin 0, Fin 0] = Fin (1 / 100000000) \<and>
   \<not> flt (Fin (1 / 100000000)) (Fin (1 / 1000000000)) \<and>
   reward_stand_still_w [Fin (1 / 100000000), Fin 0, Fin 0] [Fin 1, Fin 3] [Fin 0, Fin 1]
     (Fin (1 / 1000000000)) = Inr (Fin 3) \<and>
   reward_stand_still_k [Fin (1 / 100000000), Fin 0, Fin 0] [Fin 1, Fin 3] [Fin 0, Fin 1]
     (Fin (1 / 1000000000)) = Inr (Fin (3 / (12 * pi)))"
  using pi_ge_two
  by (simp add: planar_norm_def reward_stand_still_k_def reward_stand_still_w_def eval_defs
      real_sqrt_divide min_def max_def)

text \<open>
  C4, amended. Let \<open>n\<close> be the norm of the first three command components (forward,
  lateral and yaw rate) as \<^verbatim>\<open>math.normalize\<close> returns it. If \<open>n\<close> is at least the threshold,
  \<^verbatim>\<open>reward_stand_still\<close> returns exactly 0 for all joint angles and default poses whose
  shapes broadcast; for a finite command with \<open>n > 0\<close> this is the case whenever the planar
  norm is at least the threshold. If \<open>n\<close> is below the threshold and joint angles and
  default pose are finite arrays of one length, it returns the sum \<open>S\<close> of the absolute
  joint-angle deviations, as \<open>min (S / 12\<pi>) 1\<close> in the unit-interval module and as
  \<open>min S 1000\<close> in the signed-wide module, and \<open>S\<close> is non-negative. For the command
  (0, 0, 0) and joint angles equal to the default pose the result is 0 whatever the
  threshold.
\<close>

theorem stand_still_gate:
  assumes "snd (normalize_brax (take 3 commands)) = Fin n"
  shows "(broadcastable joint_angles default_pose \<and> t \<le> n \<longrightarrow>
            reward_stand_still_k commands joint_angles default_pose (Fin t) = Inr (Fin 0) \<and>
            reward_stand_still_w commands joint_angles default_pose (Fin t) = Inr (Fin 0)) \<and>
         (broadcastable joint_angles default_pose \<and> commands = map Fin cs \<and> 0 < n \<and>
          planar_norm commands = Fin p \<and> t \<le> p \<longrightarrow>
            reward_stand_still_k commands joint_angles default_pose (Fin t) = Inr (Fin 0) \<and>
            reward_stand_still_w commands joint_angles default_pose (Fin t) = Inr (Fin 0)) \<and>
         (length ja = length dp \<and> n < t \<longrightarrow>
            reward_stand_still_k commands (map Fin ja) (map Fin dp) (Fin t) =
              Inr (Fin (min ((\<Sum>z\<leftarrow>map2 (-) ja dp. \<bar>z\<bar>) / (12 * pi)) 1)) \<and>
            reward_stand_still_w commands (map Fin ja) (map Fin dp) (Fin t) =
              Inr (Fin (min (\<Sum>z\<leftarrow>map2 (-) ja dp. \<bar>z\<bar>) 1000)) \<and>
            0 \<le> (\<Sum>z\<leftarrow>map2 (-) ja dp. \<bar>z\<bar>)) \<and>
         reward_stand_still_k [Fin 0, Fin 0, Fin 0] (map Fin dp) (map Fin dp) thr = Inr (Fin 0) \<and>
         reward_stand_still_w [Fin 0, Fin 0, Fin 0] (map Fin dp) (map Fin dp) thr = Inr (Fin 0)"
proof -
  have off: "reward_stand_still_k commands joint_angles default_pose (Fin t) = Inr (Fin 0) \<and>
      reward_stand_still_w commands joint_angles default_pose (Fin t) = Inr (Fin 0)"
    if "broadcastable joint_angles default_pose" "t \<le> n"
    using that assms by (intro stand_still_closed) simp_all
  have planar: "t \<le> n"
    if "commands = map Fin cs" "0 < n" "planar_norm commands = Fin p" "t \<le> p"
  proof -
    have "p \<le> n"
      using that(1-3) assms planar_le_norm by blast
    then show ?thesis
      using that(4) by simp
  qed
  have on: "reward_stand_still_k commands (map Fin ja) (map Fin dp) (Fin t) =
        Inr (Fin (min ((\<Sum>z\<leftarrow>map2 (-) ja dp. \<bar>z\<bar>) / (12 * pi)) 1)) \<and>
      reward_stand_still_w commands (map Fin ja) (map Fin dp) (Fin t) =
        Inr (Fin (min (\<Sum>z\<leftarrow>map2 (-) ja dp. \<bar>z\<bar>) 1000))"
    if "length ja = length dp" "n < t"
    using that assms by (intro stand_still_open) simp_all
  have S: "0 \<le> (\<Sum>z\<leftarrow>map2 (-) ja dp. \<bar>z\<bar>)"
    by (rule abs_sum_nonneg)
  have same: "(\<Sum>z\<leftarrow>map2 (-) dp dp. \<bar>z\<bar>) = 0"
    by (induction dp) auto
  have zero: "snd (normalize_brax (take 3 [Fin 0, Fin 0, Fin 0])) = Fin 0"
    by (simp add: eval_defs)
  have rest: "reward_stand_still_k [Fin 0, Fin 0, Fin 0] (map Fin dp) (map Fin dp) thr = Inr (Fin 0) \<and>
      reward_stand_still_w [Fin 0, Fin 0, Fin 0] (map Fin dp) (map Fin dp) thr = Inr (Fin 0)"
  proof (cases "flt (snd (normalize_brax (take 3 [Fin 0, Fin 0, Fin 0]))) thr")
    case True
    show ?thesis
      using stand_still_open [OF refl True, of dp] same by simp
  next
    case False
    show ?thesis
      by (rule stand_still_closed [OF _ False]) (simp add: broadcastable_def)
  qed
  show ?thesis
    using off planar on S rest by blast
qed

theorem stand_still_gate_witness:
  "reward_stand_still_k [Fin 0, Fin 0, Fin 1] [Fin 1, PInf] [Fin 0, Fin 1] (Fin (1 / 2)) = Inr (Fin 0) \<and>
   reward_stand_still_w [Fin 0, Fin 0, Fin 1] [Fin 1, PInf] [Fin 0, Fin 1] (Fin (1 / 2)) = Inr (Fin 0) \<and>
   reward_stand_still_k [Fin 0, Fin 0, Fin 0] [Fin 1, Fin 3] [Fin 0, Fin 1] (Fin (1 / 2)) =
     Inr (Fin (min (3 / (12 * pi)) 1)) \<and>
   reward_stand_still_w [Fin 0, Fin 0, Fin 0] [Fin 1, Fin 3] [Fin 0, Fin 1] (Fin (1 / 2)) = Inr (Fin 3) \<and>
   planar_norm [Fin 1, Fin 0, Fin 0] = Fin 1 \<and>
   reward_stand_still_k [Fin 1, Fin 0, Fin 0] [Fin 1, Fin 3] [Fin 0, Fin 1] (Fin (1 / 2)) = Inr (Fin 0) \<and>
   reward_stand_still_w [Fin 1, Fin 0, Fin 0] [Fin 1, Fin 3] [Fin 0, Fin 1] (Fin (1 / 2)) = Inr (Fin 0)"
proof -
  have yaw: "snd (normalize_brax (take 3 [Fin 0, Fin 0, Fin 1])) = Fin 1"
    by (simp add: eval_defs)
  have resting: "snd (normalize_brax (take 3 [Fin 0, Fin 0, Fin 0])) = Fin 0"
    by (simp add: eval_defs)
  have forward: "snd (normalize_brax (take 3 [Fin 1, Fin 0, Fin 0])) = Fin 1"
    "planar_norm [Fin 1, Fin 0, Fin 0] = Fin 1"
    by (simp_all add: planar_norm_def eval_defs)
  have shapes: "broadcastable [Fin 1, PInf] [Fin 0, Fin (1 :: real)]"
    "broadcastable [Fin 1, Fin 3] [Fin 0, Fin (1 :: real)]"
    by (simp_all add: broadcastable_def)
  note closed = stand_still_gate [OF yaw, where joint_angles = "[Fin 1, PInf]" and
      default_pose = "[Fin 0, Fin 1]" and t = "1 / 2"]
  note opened = stand_still_gate [OF resting, where ja = "[1, 3]" and dp = "[0, 1]" and t = "1 / 2"]
  note planar = stand_still_gate [OF forward(1), where joint_angles = "[Fin 1, Fin 3]" and
      default_pose = "[Fin 0, Fin 1]" and cs = "[1, 0, 0]" and p = 1 and t = "1 / 2"]
  show ?thesis
    using closed opened planar shapes forward(2) by simp
qed

section \<open>The tracking terms of the unit-interval module\<close>

text \<open>
  C5, as stated, fails: the value is not strictly decreasing in the error. At
  \<open>tracking_sigma = 0.25\<close> the yaw errors 36 and 49 give the exponents -144 and -196, at
  which the float32 exponential is 0: both values are exactly 0.
\<close>

theorem tracking_underflow_counterexample:
  "ang_vel_error [Fin 0, Fin 0, Fin 6] upright falling = Inr (Fin 36) \<and>
   ang_vel_error [Fin 0, Fin 0, Fin 7] upright falling = Inr (Fin 49) \<and>
   reward_tracking_ang_vel_k [Fin 0, Fin 0, Fin 6] upright falling (Fin (1 / 4)) = Inr (Fin 0) \<and>
   reward_tracking_ang_vel_k [Fin 0, Fin 0, Fin 7] upright falling (Fin (1 / 4)) = Inr (Fin 0)"
  by (simp add: reward_tracking_ang_vel_k_def eval_defs)

text \<open>
  C5, amended. For a positive \<open>tracking_sigma\<close>, each of \<^verbatim>\<open>reward_tracking_orientation\<close>,
  \<^verbatim>\<open>reward_tracking_lin_vel\<close> and \<^verbatim>\<open>reward_tracking_ang_vel\<close> of \<^verbatim>\<open>rewards_test_k.py\<close>
  returns 1 when its tracking error is exactly 0, and of two inputs with finite errors the
  one with the larger error never gets the larger value: the value at the error \<open>e\<close> is the
  exponential of \<open>- e / (sigma + EPS)\<close>, which is 0 once that exponent is at most -104.
\<close>

theorem tracking_unit_interval_shape:
  assumes "0 < s"
  shows "(orientation_error d x = Inr (Fin 0) \<longrightarrow>
            reward_tracking_orientation_k d x (Fin s) = Inr (Fin 1)) \<and>
         (orientation_error d x = Inr (Fin ea) \<and> orientation_error d' x' = Inr (Fin eb) \<and> ea \<le> eb \<longrightarrow>
            reward_tracking_orientation_k d x (Fin s) = Inr (Fin (exp_value (- ea / (s + EPS)))) \<and>
            reward_tracking_orientation_k d' x' (Fin s) = Inr (Fin (exp_value (- eb / (s + EPS)))) \<and>
            exp_value (- eb / (s + EPS)) \<le> exp_value (- ea / (s + EPS))) \<and>
         (lin_vel_error c x xd = Inr (Fin 0) \<longrightarrow>
            reward_tracking_lin_vel_k c x xd (Fin s) = Inr (Fin 1)) \<and>
         (lin_vel_error c x xd = Inr (Fin ea) \<and> lin_vel_error c' x' xd' = Inr (Fin eb) \<and> ea \<le> eb \<longrightarrow>
            reward_tracking_lin_vel_k c x xd (Fin s) = Inr (Fin (exp_value (- ea / (s + EPS)))) \<and>
            reward_tracking_lin_vel_k c' x' xd' (Fin s) = Inr (Fin (exp_value (- eb / (s + EPS)))) \<and>
            exp_value (- eb / (s + EPS)) \<le> exp_value (- ea / (s + EPS))) \<and>
         (ang_vel_error c x xd = Inr (Fin 0) \<longrightarrow>
            reward_tracking_ang_vel_k c x xd (Fin s) = Inr (Fin 1)) \<and>
         (ang_vel_error c x xd = Inr (Fin ea) \<and> ang_vel_error c' x' xd' = Inr (Fin eb) \<and> ea \<le> eb \<longrightarrow>
            reward_tracking_ang_vel_k c x xd (Fin s) = Inr (Fin (exp_value (- ea / (s + EPS)))) \<and>
            reward_tracking_ang_vel_k c' x' xd' (Fin s) = Inr (Fin (exp_value (- eb / (s + EPS)))) \<and>
            exp_value (- eb / (s + EPS)) \<le> exp_value (- ea / (s + EPS)))"
proof -
  have den: "0 < s + EPS"
    using assms EPS_pos by simp
  have ori: "reward_tracking_orientation_k d x (Fin s) = Inr (Fin (exp_value (- e / (s + EPS))))"
    if "orientation_error d x = Inr (Fin e)" for d x e
    using that orientation_error_nonneg [OF that] tracking_value(1) [of e s] den
    by (simp add: reward_tracking_orientation_k_def)
  have lin: "reward_tracking_lin_vel_k c x xd (Fin s) = Inr (Fin (exp_value (- e / (s + EPS))))"
    if "lin_vel_error c x xd = Inr (Fin e)" for c x xd e
    using that lin_vel_error_nonneg [OF that] tracking_value(1) [of e s] den
    by (simp add: reward_tracking_lin_vel_k_def)
  have ang: "reward_tracking_ang_vel_k c x xd (Fin s) = Inr (Fin (exp_value (- e / (s + EPS))))"
    if "ang_vel_error c x xd = Inr (Fin e)" for c x xd e
    using that ang_vel_error_nonneg [OF that] tracking_value(1) [of e s] den
    by (simp add: reward_tracking_ang_vel_k_def)
  have mono: "exp_value (- eb / (s + EPS)) \<le> exp_value (- ea / (s + EPS))" if "ea \<le> eb"
    using that den by (intro exp_value_mono) (simp add: divide_right_mono)
  show ?thesis
    using ori [of d x 0] lin [of c x xd 0] ang [of c x xd 0]
      ori [of d x ea] ori [of d' x' eb] lin [of c x xd ea] lin [of c' x' xd' eb]
      ang [of c x xd ea] ang [of c' x' xd' eb] mono
    by (simp add: exp_value_zero)
qed

theorem tracking_unit_interval_shape_witness:
  "reward_tracking_orientation_k [Fin 0, Fin 0, Fin 1] upright (Fin (1 / 4)) = Inr (Fin 1) \<and>
   reward_tracking_orientation_k [Fin 0, Fin 0, Fin 2] upright (Fin (1 / 4)) =
     Inr (Fin (exp_value (- 1 / (1 / 4 + EPS)))) \<and>
   reward_tracking_lin_vel_k [Fin 0, Fin 0, Fin 0] upright falling (Fin (1 / 4)) = Inr (Fin 1) \<and>
   reward_tracking_lin_vel_k [Fin 1, Fin 0, Fin 0] upright falling (Fin (1 / 4)) =
     Inr (Fin (exp_value (- 1 / (1 / 4 + EPS)))) \<and>
   reward_tracking_ang_vel_k [Fin 0, Fin 0, Fin 0] upright falling (Fin (1 / 4)) = Inr (Fin 1) \<and>
   reward_tracking_ang_vel_k [Fin 0, Fin 0, Fin 1] upright falling (Fin (1 / 4)) =
     Inr (Fin (exp_value (- 1 / (1 / 4 + EPS)))) \<and>
   exp_value (- 1 / (1 / 4 + EPS)) \<le> exp_value (- 0 / (1 / 4 + EPS))"
proof -
  have errors:
    "orientation_error [Fin 0, Fin 0, Fin 1] upright = Inr (Fin 0)"
    "orientation_error [Fin 0, Fin 0, Fin 2] upright = Inr (Fin 1)"
    "lin_vel_error [Fin 0, Fin 0, Fin 0] upright falling = Inr (Fin 0)"
    "lin_vel_error [Fin 1, Fin 0, Fin 0] upright falling = Inr (Fin 1)"
    "ang_vel_error [Fin 0, Fin 0, Fin 0] upright falling = Inr (Fin 0)"
    "ang_vel_error [Fin 0, Fin 0, Fin 1] upright falling = Inr (Fin 1)"
    by (simp_all add: eval_defs)
  have sigma: "(0 :: real) < 1 / 4" and order: "(0 :: real) \<le> 1"
    by simp_all
  show ?thesis
    using tracking_unit_interval_shape [OF sigma,
        where d = "[Fin 0, Fin 0, Fin 1]" and x = upright and ea = 0 and
          d' = "[Fin 0, Fin 0, Fin 2]" and x' = upright and eb = 1 and
          c = "[Fin 0, Fin 0, Fin 0]" and xd = falling and
          c' = "[Fin 1, Fin 0, Fin 0]" and xd' = falling]
      tracking_unit_interval_shape [OF sigma,
        where d = "[Fin 0, Fin 0, Fin 1]" and x = upright and ea = 0 and
          d' = "[Fin 0, Fin 0, Fin 2]" and x' = upright and eb = 1 and
          c = "[Fin 0, Fin 0, Fin 0]" and xd = falling and
          c' = "[Fin 0, Fin 0, Fin 1]" and xd' = falling]
      errors order
    by simp
qed

section \<open>Counting collisions\<close>

text \<open>
  C6, as stated, fails: the unit-interval value does not strictly increase with each
  additional colliding contact. With ten penetrating contacts on the watched geometry 9 the
  value is 1, and an eleventh leaves it at 1.
\<close>

theorem geom_collision_saturation_counterexample:
  "reward_geom_collision_k (crowded 10) [9] = Fin 1 \<and>
   reward_geom_collision_k (crowded 11) [9] = Fin 1 \<and>
   contact (crowded 11) = knee_hit # contact (crowded 10) \<and>
   touching 9 knee_hit"
  by (simp add: geom_collision_value crowded_def knee_hit_def touching_def eval_nat_numeral)

text \<open>
  C6, amended. \<^verbatim>\<open>reward_geom_collision\<close> returns 0 when no contact has a negative
  distance. An additional contact never lowers the value, and an additional contact of
  negative distance that touches a watched geometry id strictly raises it as long as the
  value is below the upper clip bound (1 in the unit-interval module, 1000 in the
  signed-wide module). In the scenario of the specification the unit-interval value is 0.1.
\<close>

theorem geom_collision_counts:
  "((\<forall>c\<in>set (contact st). \<not> flt (cdist c) (Fin 0)) \<longrightarrow>
      reward_geom_collision_k st ids = Fin 0 \<and> reward_geom_collision_w st ids = Fin 0) \<and>
   (\<exists>r r'. reward_geom_collision_k st ids = Fin r \<and>
      reward_geom_collision_k (st\<lparr>contact := c # contact st\<rparr>) ids = Fin r' \<and> r \<le> r' \<and>
      ((\<exists>g\<in>set ids. touching g c) \<and> r < 1 \<longrightarrow> r < r')) \<and>
   (\<exists>r r'. reward_geom_collision_w st ids = Fin r \<and>
      reward_geom_collision_w (st\<lparr>contact := c # contact st\<rparr>) ids = Fin r' \<and> r \<le> r' \<and>
      ((\<exists>g\<in>set ids. touching g c) \<and> r < 1000 \<longrightarrow> r < r')) \<and>
   reward_geom_collision_k two_contacts [9] = Fin (1 / 10)"
proof -
  let ?n = "\<Sum>g\<leftarrow>ids. real (length (filter (touching g) (contact st)))"
  let ?m = "real (length (filter (\<lambda>g. touching g c) ids))"
  have none: "reward_geom_collision_k st ids = Fin 0 \<and> reward_geom_collision_w st ids = Fin 0"
    if "\<forall>c\<in>set (contact st). \<not> flt (cdist c) (Fin 0)"
  proof -
    have "filter (touching g) (contact st) = []" for g
      using that by (simp add: filter_empty_conv touching_def)
    then show ?thesis
      by (simp add: geom_collision_value)
  qed
  have after: "(\<Sum>g\<leftarrow>ids. real (length (filter (touching g) (contact (st\<lparr>contact := c # contact st\<rparr>))))) = ?n + ?m"
  proof -
    have "contact (st\<lparr>contact := c # contact st\<rparr>) = c # contact st"
      by simp
    then show ?thesis
      by (simp only: count_cons)
  qed
  have m0: "0 \<le> ?m"
    by simp
  note k = clip_mono(1) [OF m0, of ?n] and w = clip_mono(2) [OF m0, of ?n]
  have k_strict: "min (?n / 10) 1 < min ((?n + ?m) / 10) 1"
    if "\<exists>g\<in>set ids. touching g c" "min (?n / 10) 1 < 1"
    using clip_step(1) [OF touching_hit [OF that(1)] that(2)] .
  have w_strict: "min ?n 1000 < min (?n + ?m) 1000"
    if "\<exists>g\<in>set ids. touching g c" "min ?n 1000 < 1000"
    using clip_step(2) [OF touching_hit [OF that(1)] that(2)] .
  have scenario: "reward_geom_collision_k two_contacts [9] = Fin (1 / 10)"
    by (simp add: geom_collision_value two_contacts_def touching_def)
  show ?thesis
    using none k k_strict w w_strict scenario
    by (simp only: geom_collision_value after) blast
qed

theorem geom_collision_counts_witness:
  "reward_geom_collision_k apart [9] = Fin 0 \<and> reward_geom_collision_w apart [9] = Fin 0 \<and>
   (\<exists>r r'. reward_geom_collision_k apart [9] = Fin r \<and>
      reward_geom_collision_k (apart\<lparr>contact := knee_hit # contact apart\<rparr>) [9] = Fin r' \<and> r < r') \<and>
   (\<exists>r r'. reward_geom_collision_w apart [9] = Fin r \<and>
      reward_geom_collision_w (apart\<lparr>contact := knee_hit # contact apart\<rparr>) [9] = Fin r' \<and> r < r')"
proof -
  have calm: "\<forall>c\<in>set (contact apart). \<not> flt (cdist c) (Fin 0)"
    by (simp add: apart_def)
  have hit: "\<exists>g\<in>set [9]. touching g knee_hit"
    by (simp add: touching_def knee_hit_def)
  note counts = geom_collision_counts [of apart "[9]" knee_hit]
  from counts calm have zero:
    "reward_geom_collision_k apart [9] = Fin 0" "reward_geom_collision_w apart [9] = Fin 0"
    by blast+
  from counts obtain r r' where k:
    "reward_geom_collision_k apart [9] = Fin r"
    "reward_geom_collision_k (apart\<lparr>contact := knee_hit # contact apart\<rparr>) [9] = Fin r'"
    "(\<exists>g\<in>set [9]. touching g knee_hit) \<and> r < 1 \<longrightarrow> r < r'"
    by blast
  from counts obtain q q' where w:
    "reward_geom_collision_w apart [9] = Fin q"
    "reward_geom_collision_w (apart\<lparr>contact := knee_hit # contact apart\<rparr>) [9] = Fin q'"
    "(\<exists>g\<in>set [9]. touching g knee_hit) \<and> q < 1000 \<longrightarrow> q < q'"
    by blast
  have "r = 0" and "q = 0"
    using zero k(1) w(1) by simp_all
  then have "r < r'" and "q < q'"
    using k(3) w(3) hit by simp_all
  then show ?thesis
    using zero k(1,2) w(1,2) by blast
qed

text \<open>
  C10. When the count accumulated by the loop is at least 10, the unit-interval
  \<^verbatim>\<open>reward_geom_collision\<close> is exactly 1, and it is still 1 after any further contact. A
  contact adds one to the count for every entry of \<^verbatim>\<open>geom_ids\<close> that equals one of its two
  geometry ids: the pair (5, 9) with both ids watched counts twice.
\<close>

theorem geom_collision_saturates:
  "(collision_loop (contact st) ids (Fin 0) = Fin a \<and> 10 \<le> a \<longrightarrow>
      reward_geom_collision_k st ids = Fin 1 \<and>
      reward_geom_collision_k (st\<lparr>contact := c # contact st\<rparr>) ids = Fin 1) \<and>
   collision_loop (c # cs) ids (Fin 0) =
     fadd (collision_loop cs ids (Fin 0)) (Fin (real (length (filter (\<lambda>g. touching g c) ids)))) \<and>
   collision_loop [knee_hit] [5, 9] (Fin 0) = Fin 2 \<and>
   reward_geom_collision_k (apart\<lparr>contact := [knee_hit]\<rparr>) [5, 9] = Fin (2 / 10)"
proof -
  have sat: "reward_geom_collision_k st ids = Fin 1 \<and>
      reward_geom_collision_k (st\<lparr>contact := c # contact st\<rparr>) ids = Fin 1"
    if "collision_loop (contact st) ids (Fin 0) = Fin a" "10 \<le> a"
  proof -
    have "collision_loop (c # contact st) ids (Fin 0) =
        Fin (a + real (length (filter (\<lambda>g. touching g c) ids)))"
      by (simp add: collision_loop_cons that(1))
    moreover have "10 \<le> a + real (length (filter (\<lambda>g. touching g c) ids))"
      using that(2) by simp
    ultimately show ?thesis
      using that by (simp add: reward_geom_collision_k_def)
  qed
  have twice: "collision_loop [knee_hit] [5, 9] (Fin 0) = Fin 2"
    by (simp add: knee_hit_def touching_def of_mask_def)
  then have "reward_geom_collision_k (apart\<lparr>contact := [knee_hit]\<rparr>) [5, 9] = Fin (2 / 10)"
    by (simp add: reward_geom_collision_k_def)
  then show ?thesis
    using sat twice collision_loop_cons [of c cs ids] by blast
qed

theorem geom_collision_saturates_witness:
  "collision_loop (contact (crowded 10)) [9] (Fin 0) = Fin 10 \<and>
   reward_geom_collision_k (crowded 10) [9] = Fin 1 \<and>
   reward_geom_collision_k ((crowded 10)\<lparr>contact := knee_hit # contact (crowded 10)\<rparr>) [9] = Fin 1"
proof -
  have count: "collision_loop (contact (crowded 10)) [9] (Fin 0) = Fin 10"
    by (simp add: collision_loop_count crowded_def knee_hit_def touching_def)
  show ?thesis
    using geom_collision_saturates [of "crowded 10" "[9]" 10 knee_hit] count by simp
qed

section \<open>Malformed input\<close>

text \<open>
  C7, as stated, fails: no term validates its input, and the modules define no
  \<^verbatim>\<open>StateValidationError\<close>. \<^verbatim>\<open>reward_torques\<close> is a total function of its array: a NaN
  torque gives the result NaN, an array of the wrong length (one torque instead of twelve)
  gives an ordinary value, and an infinite torque gives the upper clip bound. A quaternion
  of norm 2 is rotated with as it is.
\<close>

theorem torques_nan_counterexample:
  "reward_torques_k [NaN] = NaN \<and> reward_torques_w [NaN] = NaN \<and>
   reward_torques_k [Fin 10] = Fin (1 / 12) \<and> reward_torques_w [PInf] = Fin 1000 \<and>
   reward_orientation_k \<lparr>pos = [], rot = [(Fin 2, Fin 0, Fin 0, Fin 0)]\<rparr> = Inr (Fin 0)"
  by (simp add: reward_torques_k_def reward_torques_w_def reward_orientation_k_def eval_defs)

text \<open>
  C7, amended. \<^verbatim>\<open>reward_torques\<close> raises nothing and validates nothing. A NaN among the
  torques makes the result NaN in both modules; an infinity among torques without NaN
  gives the upper clip bound; finite torques of any length give the clipped sum of
  squares.
\<close>

theorem torques_no_validation:
  "(NaN \<in> set torques \<longrightarrow> reward_torques_k torques = NaN \<and> reward_torques_w torques = NaN) \<and>
   (NaN \<notin> set torques \<and> (PInf \<in> set torques \<or> NInf \<in> set torques) \<longrightarrow>
      reward_torques_k torques = Fin 1 \<and> reward_torques_w torques = Fin 1000) \<and>
   reward_torques_k (map Fin ts) = Fin (min ((\<Sum>t\<leftarrow>ts. t\<^sup>2) / 1200) 1) \<and>
   reward_torques_w (map Fin ts) = Fin (min (\<Sum>t\<leftarrow>ts. t\<^sup>2) 1000)"
proof -
  have sq: "0 \<le> (\<Sum>t\<leftarrow>ts. t\<^sup>2)"
    by (induction ts) auto
  then have "max ((\<Sum>t\<leftarrow>ts. t\<^sup>2) / 1200) 0 = (\<Sum>t\<leftarrow>ts. t\<^sup>2) / 1200"
    and "max (\<Sum>t\<leftarrow>ts. t\<^sup>2) (- 1000) = (\<Sum>t\<leftarrow>ts. t\<^sup>2)"
    by (simp_all add: max_absorb1)
  then have "reward_torques_k (map Fin ts) = Fin (min ((\<Sum>t\<leftarrow>ts. t\<^sup>2) / 1200) 1)"
    and "reward_torques_w (map Fin ts) = Fin (min (\<Sum>t\<leftarrow>ts. t\<^sup>2) 1000)"
    by (simp_all only: reward_torques_k_def reward_torques_w_def sum_sq_Fin fdiv.simps fclip.simps)
      simp_all
  then show ?thesis
    by (simp add: reward_torques_k_def reward_torques_w_def sumsq_NaN sumsq_inf)
qed

theorem torques_no_validation_witness:
  "reward_torques_k [Fin 1, NaN, PInf] = NaN \<and> reward_torques_w [Fin 1, NaN, PInf] = NaN \<and>
   reward_torques_k [Fin 1, NInf] = Fin 1 \<and> reward_torques_w [Fin 1, NInf] = Fin 1000"
  using torques_no_validation [of "[Fin 1, NaN, PInf]"] torques_no_validation [of "[Fin 1, NInf]"]
  by simp

section \<open>The guarded divisions\<close>

text \<open>
  C8. With \<open>dt = 0\<close> the denominator of \<^verbatim>\<open>reward_joint_acceleration\<close> is \<open>EPS\<close>: for finite
  joint velocities of one length the term returns the clipped sum of the squares of
  \<open>(joint_vel - last_joint_vel) / EPS\<close> (divided by 120000 in the unit-interval module).
  With \<open>tracking_sigma = 0\<close> each tracking term with a finite error returns the clipped
  exponential of \<open>- error / EPS\<close>. No division by zero occurs.
\<close>

theorem eps_guard:
  "(length jv = length lv \<longrightarrow>
      reward_joint_acceleration_k (map Fin jv) (map Fin lv) (Fin 0) =
        Inr (Fin (min (max ((\<Sum>z\<leftarrow>map2 (-) jv lv. (z / EPS)\<^sup>2) / 120000) 0) 1)) \<and>
      reward_joint_acceleration_w (map Fin jv) (map Fin lv) (Fin 0) =
        Inr (Fin (min (max (\<Sum>z\<leftarrow>map2 (-) jv lv. (z / EPS)\<^sup>2) (- 1000)) 1000))) \<and>
   (orientation_error d x = Inr (Fin e) \<longrightarrow>
      reward_tracking_orientation_k d x (Fin 0) = Inr (Fin (min (max (exp_value (- e / EPS)) 0) 1)) \<and>
      reward_tracking_orientation_w d x (Fin 0) = Inr (Fin (min (max (exp_value (- e / EPS)) (- 1000)) 1000))) \<and>
   (lin_vel_error c x xd = Inr (Fin e) \<longrightarrow>
      reward_tracking_lin_vel_k c x xd (Fin 0) = Inr (Fin (min (max (exp_value (- e / EPS)) 0) 1)) \<and>
      reward_tracking_lin_vel_w c x xd (Fin 0) = Inr (Fin (min (max (exp_value (- e / EPS)) (- 1000)) 1000))) \<and>
   (ang_vel_error c x xd = Inr (Fin e) \<longrightarrow>
      reward_tracking_ang_vel_k c x xd (Fin 0) = Inr (Fin (min (max (exp_value (- e / EPS)) 0) 1)) \<and>
      reward_tracking_ang_vel_w c x xd (Fin 0) = Inr (Fin (min (max (exp_value (- e / EPS)) (- 1000)) 1000)))"
proof -
  have acc: "reward_joint_acceleration_k (map Fin jv) (map Fin lv) (Fin 0) =
        Inr (Fin (min (max ((\<Sum>z\<leftarrow>map2 (-) jv lv. (z / EPS)\<^sup>2) / 120000) 0) 1)) \<and>
      reward_joint_acceleration_w (map Fin jv) (map Fin lv) (Fin 0) =
        Inr (Fin (min (max (\<Sum>z\<leftarrow>map2 (-) jv lv. (z / EPS)\<^sup>2) (- 1000)) 1000))"
    if "length jv = length lv"
    using that
    by (simp only: reward_joint_acceleration_k_def reward_joint_acceleration_w_def vsub_Fin
        zero_plus_EPS(1) acceleration_Fin [OF zero_plus_EPS(2)] sum.case Let_def
        fdiv.simps fclip.simps) simp
  have track: "fexp (fdiv (fneg (Fin e)) (fadd (Fin 0) (Fin EPS))) = Fin (exp_value (- e / EPS))"
    if "nonneg (Fin e)"
  proof -
    have "- e / EPS \<le> 0"
      using that EPS_pos by (simp add: divide_nonpos_pos)
    moreover have "fdiv (fneg (Fin e)) (fadd (Fin 0) (Fin EPS)) = Fin (- e / EPS)"
      using zero_plus_EPS(2) by (simp add: zero_plus_EPS(1))
    ultimately show ?thesis
      by (simp only: fexp_nonpos)
  qed
  have "reward_tracking_orientation_k d x (Fin 0) = Inr (Fin (min (max (exp_value (- e / EPS)) 0) 1)) \<and>
      reward_tracking_orientation_w d x (Fin 0) = Inr (Fin (min (max (exp_value (- e / EPS)) (- 1000)) 1000))"
    if "orientation_error d x = Inr (Fin e)"
    by (simp only: reward_tracking_orientation_k_def reward_tracking_orientation_w_def that
        sum.case track [OF orientation_error_nonneg [OF that]] fclip.simps)
  moreover have "reward_tracking_lin_vel_k c x xd (Fin 0) = Inr (Fin (min (max (exp_value (- e / EPS)) 0) 1)) \<and>
      reward_tracking_lin_vel_w c x xd (Fin 0) = Inr (Fin (min (max (exp_value (- e / EPS)) (- 1000)) 1000))"
    if "lin_vel_error c x xd = Inr (Fin e)"
    by (simp only: reward_tracking_lin_vel_k_def reward_tracking_lin_vel_w_def that
        sum.case track [OF lin_vel_error_nonneg [OF that]] fclip.simps Let_def)
  moreover have "reward_tracking_ang_vel_k c x xd (Fin 0) = Inr (Fin (min (max (exp_value (- e / EPS)) 0) 1)) \<and>
      reward_tracking_ang_vel_w c x xd (Fin 0) = Inr (Fin (min (max (exp_value (- e / EPS)) (- 1000)) 1000))"
    if "ang_vel_error c x xd = Inr (Fin e)"
    by (simp only: reward_tracking_ang_vel_k_def reward_tracking_ang_vel_w_def that
        sum.case track [OF ang_vel_error_nonneg [OF that]] fclip.simps)
  ultimately show ?thesis
    using acc by blast
qed

theorem eps_guard_witness:
  "reward_joint_acceleration_k [Fin 1, Fin 2] [Fin 0, Fin 2] (Fin 0) = Inr (Fin 1) \<and>
   reward_joint_acceleration_w [Fin 1, Fin 2] [Fin 0, Fin 2] (Fin 0) = Inr (Fin 1000) \<and>
   reward_tracking_orientation_k [Fin 0, Fin 0, Fin 2] upright (Fin 0) =
     Inr (Fin (min (max (exp_value (- 1 / EPS)) 0) 1)) \<and>
   reward_tracking_lin_vel_k [Fin 1, Fin 0, Fin 0] upright falling (Fin 0) =
     Inr (Fin (min (max (exp_value (- 1 / EPS)) 0) 1)) \<and>
   reward_tracking_ang_vel_w [Fin 1, Fin 0, Fin 1] upright falling (Fin 0) =
     Inr (Fin (min (max (exp_value (- 1 / EPS)) (- 1000)) 1000))"
proof -
  have errors:
    "orientation_error [Fin 0, Fin 0, Fin 2] upright = Inr (Fin 1)"
    "lin_vel_error [Fin 1, Fin 0, Fin 0] upright falling = Inr (Fin 1)"
    "ang_vel_error [Fin 1, Fin 0, Fin 1] upright falling = Inr (Fin 1)"
    by (simp_all add: eval_defs)
  have big: "(1 / EPS)\<^sup>2 / 120000 \<ge> 1" "(1 / EPS)\<^sup>2 \<ge> 1000"
    by (simp_all add: EPS_def)
  note guard = eps_guard [where jv = "[1, 2]" and lv = "[0, 2]" and e = 1 and
      d = "[Fin 0, Fin 0, Fin 2]" and x = upright and xd = falling]
  show ?thesis
    using guard [where c = "[Fin 1, Fin 0, Fin 0]"] guard [where c = "[Fin 1, Fin 0, Fin 1]"]
      errors big
    by simp
qed

section \<open>The two conventions on the tracking terms\<close>

text \<open>
  C9, as stated, fails: for a negative \<open>tracking_sigma\<close> the exponent is positive and the
  exponential exceeds 1. With \<open>tracking_sigma = -1 - EPS\<close> and a yaw error of 1 the
  unit-interval module clips \<open>exp 1\<close> to 1 and the signed-wide module returns \<open>exp 1\<close>.
\<close>

theorem tracking_conventions_differ_counterexample:
  "reward_tracking_ang_vel_k [Fin 0, Fin 0, Fin 1] upright falling (Fin (- 1 - EPS)) = Inr (Fin 1) \<and>
   reward_tracking_ang_vel_w [Fin 0, Fin 0, Fin 1] upright falling (Fin (- 1 - EPS)) = Inr (Fin (exp 1)) \<and>
   exp 1 \<noteq> (1 :: real)"
proof -
  have err: "ang_vel_error [Fin 0, Fin 0, Fin 1] upright falling = Inr (Fin 1)"
    by (simp add: eval_defs)
  have e: "(1 :: real) < exp 1" "exp 1 \<le> (3 :: real)"
    using exp_gt_one [of "1 :: real"] exp_le by simp_all
  have up: "max (exp 1) 0 = exp (1 :: real)" "max (exp 1) (- 1000) = exp (1 :: real)"
    using e by (intro max_absorb1; linarith)+
  have down: "min (exp 1) 1 = (1 :: real)"
    using e by (intro min_absorb2) linarith
  have wide: "min (exp 1) 1000 = exp (1 :: real)"
    using e by (intro min_absorb1) linarith
  have clip: "min (max (exp 1) 0) 1 = (1 :: real)"
    "min (max (exp 1) (- 1000)) 1000 = exp (1 :: real)"
    by (simp_all only: up down wide)
  show ?thesis
    using e clip
    by (simp add: reward_tracking_ang_vel_k_def reward_tracking_ang_vel_w_def err)
qed

text \<open>
  C9, amended. For every input with \<open>tracking_sigma + EPS > 0\<close> the two modules return the
  same result for \<^verbatim>\<open>reward_tracking_orientation\<close>, \<^verbatim>\<open>reward_tracking_lin_vel\<close> and
  \<^verbatim>\<open>reward_tracking_ang_vel\<close>, errors and NaN included; \<^verbatim>\<open>reward_termination\<close> is the same
  in both modules for every input.
\<close>

theorem tracking_conventions_agree:
  assumes "flt (Fin 0) (fadd tracking_sigma (Fin EPS))"
  shows "reward_tracking_orientation_k d x tracking_sigma = reward_tracking_orientation_w d x tracking_sigma \<and>
    reward_tracking_lin_vel_k c x xd tracking_sigma = reward_tracking_lin_vel_w c x xd tracking_sigma \<and>
    reward_tracking_ang_vel_k c x xd tracking_sigma = reward_tracking_ang_vel_w c x xd tracking_sigma \<and>
    reward_termination_k is_done step step_threshold = reward_termination_w is_done step step_threshold"
proof -
  have "reward_tracking_orientation_k d x tracking_sigma = reward_tracking_orientation_w d x tracking_sigma"
    using tracking_clip_agree [OF orientation_error_nonneg assms]
    by (simp add: reward_tracking_orientation_k_def reward_tracking_orientation_w_def
        split: sum.splits)
  moreover have "reward_tracking_lin_vel_k c x xd tracking_sigma = reward_tracking_lin_vel_w c x xd tracking_sigma"
    using tracking_clip_agree [OF lin_vel_error_nonneg assms]
    by (simp add: reward_tracking_lin_vel_k_def reward_tracking_lin_vel_w_def
        split: sum.splits)
  moreover have "reward_tracking_ang_vel_k c x xd tracking_sigma = reward_tracking_ang_vel_w c x xd tracking_sigma"
    using tracking_clip_agree [OF ang_vel_error_nonneg assms]
    by (simp add: reward_tracking_ang_vel_k_def reward_tracking_ang_vel_w_def
        split: sum.splits)
  ultimately show ?thesis
    by (simp add: reward_termination_k_def reward_termination_w_def)
qed

theorem tracking_conventions_agree_witness:
  "reward_tracking_orientation_k [Fin 0, Fin 0, Fin 2] upright (Fin (1 / 4)) =
     reward_tracking_orientation_w [Fin 0, Fin 0, Fin 2] upright (Fin (1 / 4)) \<and>
   reward_tracking_lin_vel_k [Fin 1, Fin 0, Fin 1] upright falling (Fin (1 / 4)) =
     reward_tracking_lin_vel_w [Fin 1, Fin 0, Fin 1] upright falling (Fin (1 / 4)) \<and>
   reward_tracking_ang_vel_k [Fin 1, Fin 0, Fin 1] upright falling (Fin (1 / 4)) =
     reward_tracking_ang_vel_w [Fin 1, Fin 0, Fin 1] upright falling (Fin (1 / 4)) \<and>
   reward_termination_k True 3 5 = reward_termination_w True 3 5 \<and>
   reward_tracking_ang_vel_k [Fin 1, Fin 0, Fin 1] upright falling (Fin (1 / 4)) =
     Inr (Fin (exp (- 1 / (1 / 4 + EPS))))"
proof -
  have sigma: "flt (Fin 0) (fadd (Fin (1 / 4)) (Fin EPS))"
    by (simp add: EPS_def)
  have err: "ang_vel_error [Fin 1, Fin 0, Fin 1] upright falling = Inr (Fin 1)"
    by (simp add: eval_defs)
  have "exp_value (- 1 / (1 / 4 + EPS)) = exp (- 1 / (1 / 4 + EPS))"
    by (simp add: exp_value_def EPS_def)
  then have "reward_tracking_ang_vel_k [Fin 1, Fin 0, Fin 1] upright falling (Fin (1 / 4)) =
     Inr (Fin (exp (- 1 / (1 / 4 + EPS))))"
    using tracking_value(1) [of 1 "1 / 4"] EPS_pos
    by (simp add: reward_tracking_ang_vel_k_def err del: fexp.simps)
  then show ?thesis
    using tracking_conventions_agree [OF sigma, of "[Fin 0, Fin 0, Fin 2]" upright
        "[Fin 1, Fin 0, Fin 1]" falling True 3 5]
    by simp
qed

end
